theory Spec2Isabelle
  imports Main "HOL-Library.AList"
begin

section \<open>Python values\<close>

text \<open>
  The connector works on the decoded JSON document of the WIS endpoint. A decoded
  document is a Python value: \<open>None\<close>, a bool, an int, a float, a str, a list or a
  dict (a dict keeps its items in insertion order, with distinct keys). A float is
  \<open>m * 2 ^ e\<close> for two integers, or \<open>nan\<close>, or an infinity with its sign
  (\<open>json.loads\<close> reads \<open>NaN\<close>, \<open>Infinity\<close> and numbers too large for a double as
  such). A str is a list of code points below 256, one \<open>char\<close> each; a str with a
  code point above 255 has no counterpart here.
\<close>

datatype pyfloat =
    FFinite int int
  | FNaN
  | FInf bool

datatype json =
    JNull
  | JBool bool
  | JInt int
  | JFloat pyfloat
  | JStr string
  | JArr "json list"
  | JObj "(string \<times> json) list"

text \<open>Every \<open>raise\<close> of the code is a value; \<open>Inl\<close> carries it.\<close>

datatype error =
    KeyError
  | IndexError
  | TypeError
  | AttributeError
  | ValueError
  | OverflowError
  | ValidationError
  | HTTPError
  | OSError

text \<open>Truth value of a Python object, as \<open>if x\<close>, \<open>x or y\<close> and \<open>not x\<close> test it.\<close>

fun truthy :: "json \<Rightarrow> bool" where
  "truthy JNull = False"
| "truthy (JBool b) = b"
| "truthy (JInt n) = (n \<noteq> 0)"
| "truthy (JFloat (FFinite m e)) = (m \<noteq> 0)"
| "truthy (JFloat FNaN) = True"
| "truthy (JFloat (FInf positive)) = True"
| "truthy (JStr s) = (s \<noteq> [])"
| "truthy (JArr xs) = (xs \<noteq> [])"
| "truthy (JObj kvs) = (kvs \<noteq> [])"

text \<open>\<open>x or d\<close>\<close>

definition py_or :: "json \<Rightarrow> json \<Rightarrow> json" where
  "py_or x d = (if truthy x then x else d)"

text \<open>\<open>x.get(key, default)\<close>: only a dict has the method.\<close>

fun py_get :: "json \<Rightarrow> string \<Rightarrow> json \<Rightarrow> error + json" where
  "py_get (JObj kvs) k d = Inr (case map_of kvs k of Some v \<Rightarrow> v | None \<Rightarrow> d)"
| "py_get _ k d = Inl AttributeError"

subsection \<open>Strings\<close>

text \<open>
  The lower case of one code point below 256: the letters A to Z (65 to 90) and the
  Latin-1 capitals 0xC0 to 0xDE except the multiplication sign 0xD7 move up by 32;
  every other code point is its own lower case.
\<close>

definition lower_char :: "char \<Rightarrow> char" where
  "lower_char c =
    (let n = (of_char c :: nat)
     in if (65 \<le> n \<and> n \<le> 90) \<or> (192 \<le> n \<and> n \<le> 222 \<and> n \<noteq> 215)
        then char_of (n + 32) else c)"

text \<open>\<open>s.lower()\<close>\<close>

definition py_lower :: "string \<Rightarrow> string" where
  "py_lower s = map lower_char s"

text \<open>
  The characters \<open>str.strip()\<close> removes (\<open>str.isspace\<close>): tab, line feed, vertical
  tab, form feed, carriage return, the four separators 0x1C to 0x1F, the space, the
  next-line control 0x85 and the no-break space 0xA0.
\<close>

definition py_isspace :: "char \<Rightarrow> bool" where
  "py_isspace c =
    ((of_char c :: nat) \<in> {9, 10, 11, 12, 13, 28, 29, 30, 31, 32, 133, 160})"

text \<open>\<open>s.strip()\<close>\<close>

definition py_strip :: "string \<Rightarrow> string" where
  "py_strip s = rev (dropWhile py_isspace (rev (dropWhile py_isspace s)))"

text \<open>\<open>s.lower()\<close> as a method call on any value: only a str has the method.\<close>

fun lower_of :: "json \<Rightarrow> error + string" where
  "lower_of (JStr s) = Inr (py_lower s)"
| "lower_of _ = Inl AttributeError"

section \<open>The unified schema\<close>

datatype AttractionStatus = AS_open | AS_open_soon | AS_maintenance | AS_breakdown | AS_closed

text \<open>\<open>AttractionStatus.value\<close>\<close>

fun status_value :: "AttractionStatus \<Rightarrow> string" where
  "status_value AS_open = ''open''"
| "status_value AS_open_soon = ''open_soon''"
| "status_value AS_maintenance = ''maintenance''"
| "status_value AS_breakdown = ''breakdown''"
| "status_value AS_closed = ''closed''"

section \<open>State mapping\<close>

definition mapping :: "(string \<times> AttractionStatus) list" where
  "mapping =
    [(''open'', AS_open),
     (''nognietopen'', AS_open_soon),
     (''storing'', AS_breakdown),
     (''tijdelijkbuitenbedrijf'', AS_breakdown),
     (''inonderhoud'', AS_maintenance),
     (''buitenbedrijf'', AS_closed),
     (''gesloten'', AS_closed),
     (''wachtrijgesloten'', AS_closed),
     ('''', AS_closed)]"

text \<open>
  \<open>_map_state(raw)\<close>: \<open>state = (raw or "").lower().strip()\<close>, then the table. A key
  outside the table logs a warning and gives \<open>closed\<close>; \<open>mapping[state]\<close> raises
  KeyError on a missing key.
\<close>

definition map_state :: "json \<Rightarrow> error + AttractionStatus" where
  "map_state raw =
    (case lower_of (py_or raw (JStr '''')) of
       Inl e \<Rightarrow> Inl e
     | Inr l \<Rightarrow>
        (let state = py_strip l in
         if state \<notin> fst ` set mapping then Inr AS_closed
         else (case map_of mapping state of
                 None \<Rightarrow> Inl KeyError
               | Some st \<Rightarrow> Inr st)))"

section \<open>Dates and times\<close>

text \<open>
  A \<open>datetime\<close> holds a civil date and time of day and, when it is aware, its
  \<open>tzinfo\<close>. The date is kept as its proleptic Gregorian ordinal (\<open>toordinal()\<close>, day
  1 is 0001-01-01, day 3652059 is 9999-12-31).
\<close>

datatype tzinfo = PARK_TIMEZONE | FixedOffset int

record datetime =
  dt_day :: int
  dt_hour :: int
  dt_minute :: int
  dt_second :: int
  dt_microsecond :: int
  dt_tzinfo :: "tzinfo option"

definition is_leap :: "int \<Rightarrow> bool" where
  "is_leap y = (y mod 4 = 0 \<and> (y mod 100 \<noteq> 0 \<or> y mod 400 = 0))"

definition days_before_year :: "int \<Rightarrow> int" where
  "days_before_year y = (y - 1) * 365 + (y - 1) div 4 - (y - 1) div 100 + (y - 1) div 400"

definition days_in_month :: "int \<Rightarrow> int \<Rightarrow> int" where
  "days_in_month y m =
    (if m = 2 then (if is_leap y then 29 else 28)
     else if m \<in> {4, 6, 9, 11} then 30 else 31)"

definition days_before_month :: "int \<Rightarrow> int \<Rightarrow> int" where
  "days_before_month y m = sum_list (map (\<lambda>k. days_in_month y (int k)) [1 ..< nat m])"

text \<open>The ordinal of year, month, day.\<close>

definition ymd2ord :: "int \<Rightarrow> int \<Rightarrow> int \<Rightarrow> int" where
  "ymd2ord y m d = days_before_year y + days_before_month y m + d"

definition MAXORDINAL :: int where
  "MAXORDINAL = 3652059"

text \<open>\<open>dt.replace(second=0, microsecond=0)\<close>\<close>

definition truncate_to_minute :: "datetime \<Rightarrow> datetime" where
  "truncate_to_minute dt = dt\<lparr>dt_second := 0, dt_microsecond := 0\<rparr>"

text \<open>
  \<open>dt + timedelta(minutes=m)\<close>. The timedelta itself must have at most 999999999 days
  in absolute value, and the sum must be a date of the years 1 to 9999; both raise
  OverflowError otherwise. The sum is taken on the civil time, the \<open>tzinfo\<close> is kept.
\<close>

definition add_minutes :: "datetime \<Rightarrow> int \<Rightarrow> error + datetime" where
  "add_minutes dt m =
    (if \<not> (- 999999999 \<le> m div 1440 \<and> m div 1440 \<le> 999999999) then Inl OverflowError
     else
       (let total = dt_hour dt * 60 + dt_minute dt + m;
            day = dt_day dt + total div 1440;
            rem = total mod 1440
        in if 0 < day \<and> day \<le> MAXORDINAL
           then Inr (dt\<lparr>dt_day := day, dt_hour := rem div 60, dt_minute := rem mod 60\<rparr>)
           else Inl OverflowError))"

text \<open>The civil time in microseconds since the start of day 0.\<close>

definition civil_us :: "datetime \<Rightarrow> int" where
  "civil_us dt =
    (((dt_day dt * 24 + dt_hour dt) * 60 + dt_minute dt) * 60 + dt_second dt) * 1000000
      + dt_microsecond dt"

text \<open>
  \<open>a - b\<close> for two datetimes of the same \<open>tzinfo\<close>, in microseconds: Python ignores
  the \<open>tzinfo\<close> then and subtracts the civil times.
\<close>

definition dt_diff_us :: "datetime \<Rightarrow> datetime \<Rightarrow> int" where
  "dt_diff_us a b = civil_us a - civil_us b"

section \<open>\<open>int()\<close>\<close>

definition is_digit :: "char \<Rightarrow> bool" where
  "is_digit c = (48 \<le> (of_char c :: nat) \<and> (of_char c :: nat) \<le> 57)"

definition digit_val :: "char \<Rightarrow> int" where
  "digit_val c = int (of_char c) - 48"

text \<open>Digits, with single underscores allowed between two digits.\<close>

fun digits_ok :: "string \<Rightarrow> bool" where
  "digits_ok [] = False"
| "digits_ok [c] = is_digit c"
| "digits_ok (c # d # r) =
     (is_digit c \<and> (if d = CHR ''_'' then digits_ok r else digits_ok (d # r)))"

text \<open>
  The blanks \<open>int()\<close> skips around the digits of a str: tab, line feed, vertical tab,
  form feed, carriage return, the space, and the two blanks above 127, which the
  conversion first turns into spaces (0x85 and 0xA0). Unlike \<open>str.strip()\<close> it does
  not skip the separators 0x1C to 0x1F.
\<close>

definition int_space :: "char \<Rightarrow> bool" where
  "int_space c = ((of_char c :: nat) \<in> {9, 10, 11, 12, 13, 32, 133, 160})"

text \<open>
  \<open>int(s)\<close> for a str: surrounding blanks are dropped, then an optional sign and the
  digits follow. More than 4300 digits are refused (the interpreter's limit on
  str to int conversion). \<open>None\<close> stands for ValueError.
\<close>

definition int_of_str :: "string \<Rightarrow> int option" where
  "int_of_str s =
    (let t = rev (dropWhile int_space (rev (dropWhile int_space s)));
         neg = (t \<noteq> [] \<and> hd t = CHR ''-'');
         body = (if t \<noteq> [] \<and> (hd t = CHR ''-'' \<or> hd t = CHR ''+'') then tl t else t);
         ds = filter is_digit body
     in if digits_ok body \<and> length ds \<le> 4300
        then Some ((if neg then - 1 else 1) * foldl (\<lambda>a c. 10 * a + digit_val c) 0 ds)
        else None)"

text \<open>The integer part of the float \<open>m * 2 ^ e\<close>, rounded towards zero.\<close>

definition float_trunc :: "int \<Rightarrow> int \<Rightarrow> int" where
  "float_trunc m e =
    (if 0 \<le> e then m * 2 ^ nat e
     else if 0 \<le> m then m div 2 ^ nat (- e)
     else - ((- m) div 2 ^ nat (- e)))"

text \<open>
  \<open>int(x)\<close>: TypeError on \<open>None\<close>, a list or a dict; ValueError on a str that is not
  an integer literal and on \<open>nan\<close>; OverflowError on an infinity.
\<close>

fun py_int :: "json \<Rightarrow> error + int" where
  "py_int JNull = Inl TypeError"
| "py_int (JBool b) = Inr (if b then 1 else 0)"
| "py_int (JInt n) = Inr n"
| "py_int (JFloat (FFinite m e)) = Inr (float_trunc m e)"
| "py_int (JFloat FNaN) = Inl ValueError"
| "py_int (JFloat (FInf positive)) = Inl OverflowError"
| "py_int (JStr s) = (case int_of_str s of None \<Rightarrow> Inl ValueError | Some n \<Rightarrow> Inr n)"
| "py_int (JArr xs) = Inl TypeError"
| "py_int (JObj kvs) = Inl TypeError"

text \<open>\<open>try: ... except (ValueError, TypeError): default\<close>\<close>

fun except_value_type :: "error + 'a \<Rightarrow> 'a \<Rightarrow> error + 'a" where
  "except_value_type (Inl ValueError) d = Inr d"
| "except_value_type (Inl TypeError) d = Inr d"
| "except_value_type r d = r"

text \<open>Sequencing: the first exception ends the computation.\<close>

fun bind_err :: "error + 'a \<Rightarrow> ('a \<Rightarrow> error + 'b) \<Rightarrow> error + 'b" where
  "bind_err (Inl e) f = Inl e"
| "bind_err (Inr x) f = f x"

section \<open>Park status of a live snapshot\<close>

text \<open>
  \<open>_derive_park_status(attractions)\<close> reads only the status of each attraction, so it
  is stated over any record type with a status selector.
\<close>

definition derive_park_status :: "('a \<Rightarrow> AttractionStatus) \<Rightarrow> 'a list \<Rightarrow> string" where
  "derive_park_status status_of attractions =
    (if attractions = [] then ''unknown''
     else if list_ex (\<lambda>a. status_value (status_of a) \<in> {''open'', ''open_soon''}) attractions
          then ''open''
          else ''closed'')"

section \<open>Live schema\<close>

record SingleRiderInfo =
  sr_available :: bool
  sr_status :: "string option"
  sr_wait_time :: "int option"

datatype VirtualQueueState = VQ_available | VQ_temporarily_full | VQ_full | VQ_closed

record VirtualQueueInfo =
  vq_available :: bool
  vq_state :: "VirtualQueueState option"
  return_start :: "datetime option"
  return_end :: "datetime option"

record AttractionLive =
  al_id :: string
  al_name :: string
  al_status :: AttractionStatus
  al_wait_time :: "int option"
  single_rider :: "SingleRiderInfo option"
  virtual_queue :: "VirtualQueueInfo option"

text \<open>
  A field declared \<open>str\<close> in a model: the validation accepts a str and raises
  ValidationError on any other JSON value.
\<close>

fun str_field :: "json \<Rightarrow> error + string" where
  "str_field (JStr s) = Inr s"
| "str_field _ = Inl ValidationError"

section \<open>The WIS response cache\<close>

text \<open>
  The connector object: the cached payload (\<open>None\<close> is \<open>JNull\<close>), the time of the
  fetch that filled it (UTC, in microseconds), and the number of GET requests the
  connector has sent to the WIS endpoint, which the code does not store and which is
  kept here to say when the transport is used.
\<close>

record EftelingConnector =
  wis_cache :: json
  wis_cache_time :: "int option"
  requests :: nat

definition WIS_CACHE_SECONDS :: int where
  "WIS_CACHE_SECONDS = 60"

text \<open>
  \<open>_fetch_wis()\<close>. \<open>now\<close> is \<open>datetime.now(timezone.utc)\<close> in microseconds;
  \<open>upstream\<close> is what the GET, \<open>raise_for_status()\<close> and \<open>resp.json()\<close> give when
  they run: the decoded document, or the exception one of them raises.
  \<open>total_seconds() < 60\<close> is the comparison of the microseconds with sixty million.
\<close>

definition fetch_wis ::
  "int \<Rightarrow> error + json \<Rightarrow> EftelingConnector \<Rightarrow> (error + json) \<times> EftelingConnector" where
  "fetch_wis now upstream self =
    (if wis_cache self \<noteq> JNull
        \<and> (case wis_cache_time self of
              None \<Rightarrow> False
            | Some t \<Rightarrow> now - t < WIS_CACHE_SECONDS * 1000000)
     then (Inr (wis_cache self), self)
     else
       (case upstream of
          Inl e \<Rightarrow> (Inl e, self\<lparr>requests := requests self + 1\<rparr>)
        | Inr data \<Rightarrow>
            (Inr data,
             self\<lparr>wis_cache := data, wis_cache_time := Some now,
                  requests := requests self + 1\<rparr>)))"

section \<open>Attractions\<close>

subsection \<open>String helpers\<close>

text \<open>\<open>sub in s\<close>\<close>

fun py_contains :: "string \<Rightarrow> string \<Rightarrow> bool" where
  "py_contains sub [] = (sub = [])"
| "py_contains sub (c # cs) = (take (length sub) (c # cs) = sub \<or> py_contains sub cs)"

text \<open>\<open>s.endswith(suffix)\<close>\<close>

definition py_endswith :: "string \<Rightarrow> string \<Rightarrow> bool" where
  "py_endswith s suffix =
    (length suffix \<le> length s \<and> drop (length s - length suffix) s = suffix)"

text \<open>
  \<open>s.replace(old, "")\<close>: the occurrences of \<open>old\<close> are removed from left to right,
  without overlap; the remaining text is not scanned again.
\<close>

function py_remove :: "string \<Rightarrow> string \<Rightarrow> string" where
  "py_remove old [] = []"
| "py_remove old (c # cs) =
     (if old \<noteq> [] \<and> take (length old) (c # cs) = old
      then py_remove old (drop (length old) (c # cs))
      else c # py_remove old cs)"
  by pat_completeness auto
termination
  by (relation "measure (\<lambda>(old, s). length s)") (auto simp: Suc_diff_le)

subsection \<open>The entries by identifier\<close>

text \<open>\<open>for e in x\<close>: the elements of a list, the keys of a dict, the characters of a str.\<close>

fun py_iter :: "json \<Rightarrow> error + json list" where
  "py_iter (JArr xs) = Inr xs"
| "py_iter (JObj kvs) = Inr (map (\<lambda>kv. JStr (fst kv)) kvs)"
| "py_iter (JStr s) = Inr (map (\<lambda>c. JStr [c]) s)"
| "py_iter _ = Inl TypeError"

text \<open>\<open>e["Id"]\<close>: KeyError on a dict without the key, TypeError on any other value.\<close>

fun item_Id :: "json \<Rightarrow> error + json" where
  "item_Id (JObj kvs) = (case map_of kvs ''Id'' of None \<Rightarrow> Inl KeyError | Some v \<Rightarrow> Inr v)"
| "item_Id _ = Inl TypeError"

text \<open>A dict key must be hashable: a list or a dict is not.\<close>

fun hashable :: "json \<Rightarrow> bool" where
  "hashable (JArr xs) = False"
| "hashable (JObj kvs) = False"
| "hashable _ = True"

text \<open>The pairs \<open>(e["Id"], e)\<close> of the comprehension, in the order of the payload.\<close>

fun id_pairs :: "json list \<Rightarrow> error + (json \<times> json) list" where
  "id_pairs [] = Inr []"
| "id_pairs (e # es) =
     bind_err (item_Id e) (\<lambda>k.
       if hashable k then bind_err (id_pairs es) (\<lambda>r. Inr ((k, e) # r))
       else Inl TypeError)"

fun is_JStr :: "json \<Rightarrow> bool" where
  "is_JStr (JStr s) = True"
| "is_JStr _ = False"

fun str_of :: "json \<Rightarrow> string" where
  "str_of (JStr s) = s"
| "str_of _ = []"

text \<open>
  \<open>all_entries = {e["Id"]: e for e in data.get("AttractionInfo", [])}\<close>, as the list
  of its items: a later entry with the same \<open>Id\<close> replaces the value and keeps the place
  of the first. The loop that follows the comprehension calls \<open>.lower()\<close> on every key
  and does nothing else that can be observed or can raise, so a key that is not a str
  ends the call with AttributeError there; this is folded into the construction, and
  the keys are strings from then on.
\<close>

definition all_entries_of :: "json \<Rightarrow> error + (string \<times> json) list" where
  "all_entries_of data =
    bind_err (py_get data ''AttractionInfo'' (JArr [])) (\<lambda>info.
    bind_err (py_iter info) (\<lambda>es.
    bind_err (id_pairs es) (\<lambda>pairs.
      if list_all (\<lambda>p. is_JStr (fst p)) pairs
      then Inr (foldl (\<lambda>d p. AList.update (str_of (fst p)) (snd p) d) [] pairs)
      else Inl AttributeError)))"

subsection \<open>Single-rider entries\<close>

text \<open>\<open>"singlerider" in lower or lower.endswith("sr")\<close>\<close>

definition is_single_rider_id :: "string \<Rightarrow> bool" where
  "is_single_rider_id entry_id =
    (let lower = py_lower entry_id
     in py_contains ''singlerider'' lower \<or> py_endswith lower ''sr'')"

text \<open>\<open>entry_id.lower().replace("singlerider", "").replace("sr", "")\<close>\<close>

definition parent_id_of :: "string \<Rightarrow> string" where
  "parent_id_of entry_id = py_remove ''sr'' (py_remove ''singlerider'' (py_lower entry_id))"

text \<open>
  \<open>single_rider_map\<close>, as the list of its items: for each key that looks like a
  single-rider entry, the first key whose lowered form is the parent identifier, when
  there is one and it is not the empty string.
\<close>

definition single_rider_map_of :: "(string \<times> json) list \<Rightarrow> (string \<times> string) list" where
  "single_rider_map_of all_entries =
    concat (map (\<lambda>entry_id.
      if is_single_rider_id entry_id
      then (case find (\<lambda>k. py_lower k = parent_id_of entry_id) (map fst all_entries) of
              None \<Rightarrow> []
            | Some match \<Rightarrow> if match \<noteq> [] then [(entry_id, match)] else [])
      else []) (map fst all_entries))"

definition special_merge :: "(string \<times> string) list" where
  "special_merge = [(''droomvluchtstandby'', ''droomvlucht'')]"

subsection \<open>One attraction\<close>

text \<open>\<open>entry.get("Type") in ("Attraction", "Attracties")\<close>\<close>

definition is_attraction_type :: "json \<Rightarrow> error + bool" where
  "is_attraction_type entry =
    bind_err (py_get entry ''Type'' JNull) (\<lambda>t.
      Inr (t = JStr ''Attraction'' \<or> t = JStr ''Attracties''))"

text \<open>
  The wait time of an entry of the given status:
  \<open>int(entry.get("WaitingTime") or 0)\<close> when the status is \<open>open\<close>, \<open>None\<close> when the
  conversion raises ValueError or TypeError, and \<open>None\<close> for any other status.
\<close>

definition wait_time_of :: "AttractionStatus \<Rightarrow> json \<Rightarrow> error + int option" where
  "wait_time_of status entry =
    (if status = AS_open
     then except_value_type
            (bind_err (py_get entry ''WaitingTime'' JNull) (\<lambda>w.
             bind_err (py_int (py_or w (JInt 0))) (\<lambda>n. Inr (Some n))))
            None
     else Inr None)"

text \<open>The status and wait time read from one raw entry.\<close>

definition status_and_wait :: "json \<Rightarrow> error + AttractionStatus \<times> int option" where
  "status_and_wait entry =
    bind_err (py_get entry ''State'' (JStr '''')) (\<lambda>raw.
    bind_err (map_state raw) (\<lambda>status.
    bind_err (wait_time_of status entry) (\<lambda>wait_time.
      Inr (status, wait_time))))"

text \<open>
  The single-rider block: \<open>sr_id\<close> is the first key of \<open>single_rider_map\<close> whose value
  is this entry's identifier.
\<close>

definition single_rider_of ::
  "(string \<times> json) list \<Rightarrow> (string \<times> string) list \<Rightarrow> string
     \<Rightarrow> error + SingleRiderInfo option" where
  "single_rider_of all_entries single_rider_map entry_id =
    (case find (\<lambda>kv. snd kv = entry_id) single_rider_map of
       None \<Rightarrow> Inr None
     | Some kv \<Rightarrow>
        (let sr_id = fst kv in
         if sr_id \<noteq> [] \<and> sr_id \<in> fst ` set all_entries
         then (case map_of all_entries sr_id of
                 None \<Rightarrow> Inl KeyError
               | Some sr \<Rightarrow>
                   bind_err (status_and_wait sr) (\<lambda>sw.
                     Inr (Some \<lparr>sr_available = True,
                                sr_status =
                                  Some (if fst sw = AS_open then ''open'' else ''closed''),
                                sr_wait_time = snd sw\<rparr>)))
         else Inr None))"

definition VQ_WINDOW_MINUTES :: int where
  "VQ_WINDOW_MINUTES = 15"

text \<open>
  The return window of an enabled virtual queue. \<open>now\<close> is the reading of
  \<open>datetime.now(PARK_TIMEZONE)\<close>, \<open>vq_wait\<close> the raw \<open>WaitingTime\<close>.
\<close>

definition return_window :: "datetime \<Rightarrow> json \<Rightarrow> error + VirtualQueueInfo" where
  "return_window now vq_wait =
    (let now_park = truncate_to_minute now in
     bind_err (except_value_type (py_int (py_or vq_wait (JInt 0))) 0) (\<lambda>wait_min.
     bind_err (add_minutes now_park wait_min) (\<lambda>rs.
     bind_err (add_minutes rs VQ_WINDOW_MINUTES) (\<lambda>re.
       Inr \<lparr>vq_available = True, vq_state = Some VQ_available,
            return_start = Some rs, return_end = Some re\<rparr>))))"

text \<open>
  The \<open>if\<close>/\<open>elif\<close> chain of the virtual-queue block, on the lowered raw state.
\<close>

definition virtual_queue_info :: "datetime \<Rightarrow> string \<Rightarrow> json \<Rightarrow> error + VirtualQueueInfo" where
  "virtual_queue_info now vq_state_raw vq_wait =
    (if vq_state_raw = ''walkin''
     then Inr \<lparr>vq_available = True, vq_state = Some VQ_temporarily_full,
               return_start = None, return_end = None\<rparr>
     else if vq_state_raw = ''enabled''
     then return_window now vq_wait
     else if vq_state_raw = ''full''
     then Inr \<lparr>vq_available = True, vq_state = Some VQ_full,
               return_start = None, return_end = None\<rparr>
     else Inr \<lparr>vq_available = True, vq_state = Some VQ_closed,
               return_start = None, return_end = None\<rparr>)"

text \<open>
  The virtual-queue block of one entry: nothing when \<open>entry.get("VirtualQueue")\<close> is
  falsy, else the chain on \<open>(vq_raw.get("State") or "").lower()\<close> and
  \<open>vq_raw.get("WaitingTime")\<close>.
\<close>

definition virtual_queue_of :: "datetime \<Rightarrow> json \<Rightarrow> error + VirtualQueueInfo option" where
  "virtual_queue_of now entry =
    bind_err (py_get entry ''VirtualQueue'' JNull) (\<lambda>vq_raw.
      if truthy vq_raw
      then
        bind_err (py_get vq_raw ''State'' JNull) (\<lambda>st.
        bind_err (lower_of (py_or st (JStr ''''))) (\<lambda>vq_state_raw.
        bind_err (py_get vq_raw ''WaitingTime'' JNull) (\<lambda>vq_wait.
        bind_err (virtual_queue_info now vq_state_raw vq_wait) (\<lambda>vq.
          Inr (Some vq)))))
      else Inr None)"

text \<open>
  The body of the loop over \<open>all_entries.items()\<close>: \<open>None\<close> when the entry is skipped
  by a \<open>continue\<close>. \<open>clock\<close> gives the reading of the park clock taken while the
  entry of that identifier is processed.
\<close>

definition attraction_of ::
  "(string \<Rightarrow> datetime) \<Rightarrow> (string \<times> json) list \<Rightarrow> (string \<times> string) list
     \<Rightarrow> string \<times> json \<Rightarrow> error + AttractionLive option" where
  "attraction_of clock all_entries single_rider_map item =
    (let entry_id = fst item; entry = snd item in
     bind_err (is_attraction_type entry) (\<lambda>is_attr.
       if \<not> is_attr then Inr None
       else if entry_id \<in> fst ` set single_rider_map then Inr None
       else
         (let resolved_id =
                (case map_of special_merge entry_id of None \<Rightarrow> entry_id | Some r \<Rightarrow> r) in
          bind_err (status_and_wait entry) (\<lambda>sw.
          bind_err (single_rider_of all_entries single_rider_map entry_id) (\<lambda>sr.
          bind_err (virtual_queue_of (clock entry_id) entry) (\<lambda>vq.
          bind_err (py_get entry ''Name'' (JStr ''Unknown'')) (\<lambda>nm.
          bind_err (str_field nm) (\<lambda>name.
            Inr (Some \<lparr>al_id = resolved_id, al_name = name, al_status = fst sw,
                       al_wait_time = snd sw, single_rider = sr,
                       virtual_queue = vq\<rparr>)))))))))"

text \<open>The loop: the first exception ends it, a skipped entry adds nothing.\<close>

fun attractions_loop ::
  "(string \<Rightarrow> datetime) \<Rightarrow> (string \<times> json) list \<Rightarrow> (string \<times> string) list
     \<Rightarrow> (string \<times> json) list \<Rightarrow> error + AttractionLive list" where
  "attractions_loop clock all_entries single_rider_map [] = Inr []"
| "attractions_loop clock all_entries single_rider_map (item # items) =
     bind_err (attraction_of clock all_entries single_rider_map item) (\<lambda>r.
     bind_err (attractions_loop clock all_entries single_rider_map items) (\<lambda>rest.
       Inr (case r of None \<Rightarrow> rest | Some a \<Rightarrow> a # rest)))"

text \<open>\<open>fetch_wait_times\<close> after the fetch: from the decoded document to the list.\<close>

definition attractions_of :: "(string \<Rightarrow> datetime) \<Rightarrow> json \<Rightarrow> error + AttractionLive list" where
  "attractions_of clock data =
    bind_err (all_entries_of data) (\<lambda>all_entries.
      attractions_loop clock all_entries (single_rider_map_of all_entries) all_entries)"

text \<open>
  \<open>fetch_wait_times()\<close>: an exception of \<open>_fetch_wis()\<close> is logged and gives the empty
  list; nothing after the fetch is inside the \<open>try\<close>.
\<close>

definition fetch_wait_times ::
  "int \<Rightarrow> (string \<Rightarrow> datetime) \<Rightarrow> error + json \<Rightarrow> EftelingConnector
     \<Rightarrow> (error + AttractionLive list) \<times> EftelingConnector" where
  "fetch_wait_times now clock upstream self =
    (case fetch_wis now upstream self of
       (Inl e, self') \<Rightarrow> (Inr [], self')
     | (Inr data, self') \<Rightarrow> (attractions_of clock data, self'))"

section \<open>Shows, restaurants and shops\<close>

subsection \<open>Helpers\<close>

text \<open>
  \<open>_parse_dt(value)\<close>. \<open>fromisoformat v\<close> stands for
  \<open>datetime.fromisoformat(str(v))\<close>, \<open>None\<close> when that raises; a naive result gets the
  park's time zone. Nothing is raised: a falsy value and an unparseable one give
  \<open>None\<close>.
\<close>

definition parse_dt :: "(json \<Rightarrow> datetime option) \<Rightarrow> json \<Rightarrow> datetime option" where
  "parse_dt fromisoformat v =
    (if \<not> truthy v then None
     else (case fromisoformat v of
             None \<Rightarrow> None
           | Some dt \<Rightarrow>
               Some (if dt_tzinfo dt = None then dt\<lparr>dt_tzinfo := Some PARK_TIMEZONE\<rparr> else dt)))"

text \<open>
  \<open>dt >= now_park\<close>, where \<open>now_park\<close> is \<open>datetime.now(PARK_TIMEZONE)\<close> and
  \<open>now_offset\<close> its \<open>utcoffset()\<close> in microseconds. A datetime of the same \<open>tzinfo\<close>
  is compared on the civil time; one with a fixed offset \<open>k\<close> (in microseconds) is
  compared on the UTC line; a naive one cannot be compared with an aware one.
\<close>

definition dt_ge :: "datetime \<Rightarrow> datetime \<Rightarrow> int \<Rightarrow> error + bool" where
  "dt_ge dt now_park now_offset =
    (case dt_tzinfo dt of
       None \<Rightarrow> Inl TypeError
     | Some PARK_TIMEZONE \<Rightarrow> Inr (civil_us now_park \<le> civil_us dt)
     | Some (FixedOffset k) \<Rightarrow> Inr (civil_us now_park - now_offset \<le> civil_us dt - k))"

text \<open>
  An int too large for a float: \<open>int + float\<close> converts the int and raises
  OverflowError from \<open>2 ^ 1024 - 2 ^ 970\<close> on.
\<close>

definition float_overflow :: "json \<Rightarrow> bool" where
  "float_overflow x =
    (case x of JInt n \<Rightarrow> 2 ^ 1024 - 2 ^ 970 \<le> \<bar>n\<bar> | _ \<Rightarrow> False)"

fun is_number :: "json \<Rightarrow> bool" where
  "is_number (JBool b) = True"
| "is_number (JInt n) = True"
| "is_number (JFloat f) = True"
| "is_number _ = False"

fun is_JFloat :: "json \<Rightarrow> bool" where
  "is_JFloat (JFloat f) = True"
| "is_JFloat _ = False"

text \<open>
  What \<open>for t in a + b\<close> runs over. Two lists give their concatenation and two
  strs the characters of theirs. Two numbers give a number, which cannot be iterated
  (TypeError), unless the sum itself raises OverflowError. Nothing else can be
  added.
\<close>

definition iter_sum :: "json \<Rightarrow> json \<Rightarrow> error + json list" where
  "iter_sum a b =
    (case (a, b) of
       (JArr xs, JArr ys) \<Rightarrow> Inr (xs @ ys)
     | (JStr s, JStr t) \<Rightarrow> Inr (map (\<lambda>c. JStr [c]) (s @ t))
     | _ \<Rightarrow>
        if is_number a \<and> is_number b \<and>
           ((is_JFloat a \<and> float_overflow b) \<or> (is_JFloat b \<and> float_overflow a))
        then Inl OverflowError
        else Inl TypeError)"

text \<open>
  \<open>x[0]\<close>: the first item of a list, the first character of a str; a decoded dict
  has no key \<open>0\<close>; nothing else can be indexed.
\<close>

fun py_first :: "json \<Rightarrow> error + json" where
  "py_first (JArr (x # xs)) = Inr x"
| "py_first (JArr []) = Inl IndexError"
| "py_first (JStr (c # cs)) = Inr (JStr [c])"
| "py_first (JStr []) = Inl IndexError"
| "py_first (JObj kvs) = Inl KeyError"
| "py_first _ = Inl TypeError"

text \<open>
  A loop that appends at most one item per element: the first exception ends it.
\<close>

fun for_each :: "('a \<Rightarrow> error + 'b option) \<Rightarrow> 'a list \<Rightarrow> error + 'b list" where
  "for_each f [] = Inr []"
| "for_each f (x # xs) =
     bind_err (f x) (\<lambda>r.
     bind_err (for_each f xs) (\<lambda>rest.
       Inr (case r of None \<Rightarrow> rest | Some y \<Rightarrow> y # rest)))"

subsection \<open>Shows\<close>

text \<open>
  \<open>ShowTime\<close> and \<open>Show\<close>, with the fields the connector sets (\<open>land\<close>, \<open>location\<close>,
  \<open>photos\<close> and \<open>duration_minutes\<close> keep their defaults).
\<close>

record ShowTime =
  start_date_time :: datetime
  end_date_time :: datetime
  edition :: "string option"

record Show =
  show_id :: string
  show_name :: string
  show_status :: string
  show_times :: "ShowTime list"

text \<open>
  One raw show time: appended when both dates parse. \<open>edition\<close> is a str field, so
  a truthy \<open>Edition\<close> that is not a str fails the validation of the model.
\<close>

definition show_time_of :: "(json \<Rightarrow> datetime option) \<Rightarrow> json \<Rightarrow> error + ShowTime option" where
  "show_time_of fromisoformat t =
    bind_err (py_get t ''StartDateTime'' JNull) (\<lambda>s.
    bind_err (py_get t ''EndDateTime'' JNull) (\<lambda>e.
      (case (parse_dt fromisoformat s, parse_dt fromisoformat e) of
         (Some start, Some end) \<Rightarrow>
            bind_err (py_get t ''Edition'' JNull) (\<lambda>ed.
            bind_err (str_field (py_or ed (JStr ''Showtime''))) (\<lambda>edition.
              Inr (Some \<lparr>start_date_time = start, end_date_time = end,
                         edition = Some edition\<rparr>)))
       | _ \<Rightarrow> Inr None)))"

text \<open>\<open>any(st.start_date_time >= now_park for st in show_times)\<close>\<close>

fun has_upcoming_of :: "datetime \<Rightarrow> int \<Rightarrow> ShowTime list \<Rightarrow> error + bool" where
  "has_upcoming_of now_park now_offset [] = Inr False"
| "has_upcoming_of now_park now_offset (st # sts) =
     bind_err (dt_ge (start_date_time st) now_park now_offset) (\<lambda>b.
       if b then Inr True else has_upcoming_of now_park now_offset sts)"

text \<open>
  The body of the loop of \<open>fetch_shows\<close> for one entry. \<open>list_sort\<close> stands for
  \<open>show_times.sort(key=lambda x: x.start_date_time)\<close>: what the list holds afterwards.
\<close>

definition show_of ::
  "(json \<Rightarrow> datetime option) \<Rightarrow> (ShowTime list \<Rightarrow> ShowTime list) \<Rightarrow> datetime \<Rightarrow> int
     \<Rightarrow> json \<Rightarrow> error + Show option" where
  "show_of fromisoformat list_sort now_park now_offset entry =
    bind_err (py_get entry ''Type'' JNull) (\<lambda>ty.
      if ty \<noteq> JStr ''Shows en Entertainment'' then Inr None
      else
        bind_err (py_get entry ''ShowTimes'' JNull) (\<lambda>a.
        bind_err (py_get entry ''PastShowTimes'' JNull) (\<lambda>b.
        bind_err (iter_sum (py_or a (JArr [])) (py_or b (JArr []))) (\<lambda>raw_times.
        bind_err (for_each (show_time_of fromisoformat) raw_times) (\<lambda>appended.
          (let show_times = list_sort appended in
           bind_err (has_upcoming_of now_park now_offset show_times) (\<lambda>has_upcoming.
           bind_err (py_get entry ''Id'' (JStr '''')) (\<lambda>i.
           bind_err (lower_of i) (\<lambda>ident.
           bind_err (py_get entry ''Name'' (JStr ''Unknown'')) (\<lambda>nm.
           bind_err (str_field nm) (\<lambda>name.
             Inr (Some \<lparr>show_id = ident, show_name = name,
                        show_status = (if has_upcoming then ''open'' else ''closed''),
                        show_times = show_times\<rparr>))))))))))))"

text \<open>\<open>fetch_shows\<close> after the fetch.\<close>

definition shows_of ::
  "(json \<Rightarrow> datetime option) \<Rightarrow> (ShowTime list \<Rightarrow> ShowTime list) \<Rightarrow> datetime \<Rightarrow> int
     \<Rightarrow> json \<Rightarrow> error + Show list" where
  "shows_of fromisoformat list_sort now_park now_offset data =
    bind_err (py_get data ''AttractionInfo'' (JArr [])) (\<lambda>info.
    bind_err (py_iter info) (\<lambda>es.
      for_each (show_of fromisoformat list_sort now_park now_offset) es))"

definition fetch_shows ::
  "int \<Rightarrow> (json \<Rightarrow> datetime option) \<Rightarrow> (ShowTime list \<Rightarrow> ShowTime list) \<Rightarrow> datetime \<Rightarrow> int
     \<Rightarrow> error + json \<Rightarrow> EftelingConnector \<Rightarrow> (error + Show list) \<times> EftelingConnector" where
  "fetch_shows now fromisoformat list_sort now_park now_offset upstream self =
    (case fetch_wis now upstream self of
       (Inl e, self') \<Rightarrow> (Inr [], self')
     | (Inr data, self') \<Rightarrow> (shows_of fromisoformat list_sort now_park now_offset data, self'))"

subsection \<open>Restaurants and shops\<close>

datatype VenueStatus = VS_open | VS_closed

record Restaurant =
  restaurant_id :: string
  restaurant_name :: string
  restaurant_status :: VenueStatus
  restaurant_opening_time :: "datetime option"
  restaurant_closing_time :: "datetime option"

record Shop =
  shop_id :: string
  shop_name :: string
  shop_status :: VenueStatus
  shop_opening_time :: "datetime option"
  shop_closing_time :: "datetime option"

text \<open>
  The opening times block, the same in \<open>fetch_restaurants\<close> and \<open>fetch_shops\<close>:
  status, opening time and closing time from \<open>entry.get("OpeningTimes") or []\<close>.
\<close>

definition opening_times_of ::
  "(json \<Rightarrow> datetime option) \<Rightarrow> json
     \<Rightarrow> error + VenueStatus \<times> datetime option \<times> datetime option" where
  "opening_times_of fromisoformat entry =
    bind_err (py_get entry ''OpeningTimes'' JNull) (\<lambda>x.
      (let times = py_or x (JArr []) in
       if truthy times
       then
         bind_err (py_first times) (\<lambda>t0.
         bind_err (py_get t0 ''HourFrom'' JNull) (\<lambda>hour_from.
         bind_err (py_get t0 ''HourTo'' JNull) (\<lambda>hour_to.
           Inr (VS_open, parse_dt fromisoformat hour_from, parse_dt fromisoformat hour_to))))
       else Inr (VS_closed, None, None)))"

definition restaurant_of :: "(json \<Rightarrow> datetime option) \<Rightarrow> json \<Rightarrow> error + Restaurant option" where
  "restaurant_of fromisoformat entry =
    bind_err (py_get entry ''Type'' JNull) (\<lambda>ty.
      if ty \<noteq> JStr ''Horeca'' then Inr None
      else
        bind_err (opening_times_of fromisoformat entry) (\<lambda>ot.
        bind_err (py_get entry ''Id'' (JStr '''')) (\<lambda>i.
        bind_err (lower_of i) (\<lambda>ident.
        bind_err (py_get entry ''Name'' (JStr ''Unknown'')) (\<lambda>nm.
        bind_err (str_field nm) (\<lambda>name.
          Inr (Some \<lparr>restaurant_id = ident, restaurant_name = name,
                     restaurant_status = fst ot,
                     restaurant_opening_time = fst (snd ot),
                     restaurant_closing_time = snd (snd ot)\<rparr>)))))))"

definition restaurants_of :: "(json \<Rightarrow> datetime option) \<Rightarrow> json \<Rightarrow> error + Restaurant list" where
  "restaurants_of fromisoformat data =
    bind_err (py_get data ''AttractionInfo'' (JArr [])) (\<lambda>info.
    bind_err (py_iter info) (\<lambda>es.
      for_each (restaurant_of fromisoformat) es))"

definition fetch_restaurants ::
  "int \<Rightarrow> (json \<Rightarrow> datetime option) \<Rightarrow> error + json \<Rightarrow> EftelingConnector
     \<Rightarrow> (error + Restaurant list) \<times> EftelingConnector" where
  "fetch_restaurants now fromisoformat upstream self =
    (case fetch_wis now upstream self of
       (Inl e, self') \<Rightarrow> (Inr [], self')
     | (Inr data, self') \<Rightarrow> (restaurants_of fromisoformat data, self'))"

definition shop_of :: "(json \<Rightarrow> datetime option) \<Rightarrow> json \<Rightarrow> error + Shop option" where
  "shop_of fromisoformat entry =
    bind_err (py_get entry ''Type'' JNull) (\<lambda>ty.
      if ty \<noteq> JStr ''Souvenirwinkel'' then Inr None
      else
        bind_err (opening_times_of fromisoformat entry) (\<lambda>ot.
        bind_err (py_get entry ''Id'' (JStr '''')) (\<lambda>i.
        bind_err (lower_of i) (\<lambda>ident.
        bind_err (py_get entry ''Name'' (JStr ''Unknown'')) (\<lambda>nm.
        bind_err (str_field nm) (\<lambda>name.
          Inr (Some \<lparr>shop_id = ident, shop_name = name,
                     shop_status = fst ot,
                     shop_opening_time = fst (snd ot),
                     shop_closing_time = snd (snd ot)\<rparr>)))))))"

definition shops_of :: "(json \<Rightarrow> datetime option) \<Rightarrow> json \<Rightarrow> error + Shop list" where
  "shops_of fromisoformat data =
    bind_err (py_get data ''AttractionInfo'' (JArr [])) (\<lambda>info.
    bind_err (py_iter info) (\<lambda>es.
      for_each (shop_of fromisoformat) es))"

definition fetch_shops ::
  "int \<Rightarrow> (json \<Rightarrow> datetime option) \<Rightarrow> error + json \<Rightarrow> EftelingConnector
     \<Rightarrow> (error + Shop list) \<times> EftelingConnector" where
  "fetch_shops now fromisoformat upstream self =
    (case fetch_wis now upstream self of
       (Inl e, self') \<Rightarrow> (Inr [], self')
     | (Inr data, self') \<Rightarrow> (shops_of fromisoformat data, self'))"

section \<open>Properties of the state mapping\<close>

lemma map_state_str:
  "map_state (JStr raw) =
     (let state = py_strip (py_lower raw) in
      if state \<notin> fst ` set mapping then Inr AS_closed
      else (case map_of mapping state of None \<Rightarrow> Inl KeyError | Some st \<Rightarrow> Inr st))"
  by (cases raw) (simp_all add: map_state_def py_or_def py_lower_def py_strip_def)

text \<open>
  C1. A raw state that is, once lowered and stripped, one of the eight known Efteling
  states maps to the documented unified status; every other string maps to \<open>closed\<close>,
  and so do the empty string and \<open>None\<close>. The result is always a status, never an
  exception.
\<close>

theorem map_state_vocabulary:
  "(let k = py_strip (py_lower raw) in
     (k = ''open'' \<longrightarrow> map_state (JStr raw) = Inr AS_open) \<and>
     (k = ''nognietopen'' \<longrightarrow> map_state (JStr raw) = Inr AS_open_soon) \<and>
     (k = ''storing'' \<longrightarrow> map_state (JStr raw) = Inr AS_breakdown) \<and>
     (k = ''tijdelijkbuitenbedrijf'' \<longrightarrow> map_state (JStr raw) = Inr AS_breakdown) \<and>
     (k = ''inonderhoud'' \<longrightarrow> map_state (JStr raw) = Inr AS_maintenance) \<and>
     (k = ''buitenbedrijf'' \<longrightarrow> map_state (JStr raw) = Inr AS_closed) \<and>
     (k = ''gesloten'' \<longrightarrow> map_state (JStr raw) = Inr AS_closed) \<and>
     (k = ''wachtrijgesloten'' \<longrightarrow> map_state (JStr raw) = Inr AS_closed) \<and>
     (k \<notin> {''open'', ''nognietopen'', ''storing'', ''tijdelijkbuitenbedrijf'', ''inonderhoud'',
            ''buitenbedrijf'', ''gesloten'', ''wachtrijgesloten''}
        \<longrightarrow> map_state (JStr raw) = Inr AS_closed)) \<and>
   map_state (JStr '''') = Inr AS_closed \<and>
   map_state JNull = Inr AS_closed"
  unfolding map_state_str Let_def
  by (simp add: mapping_def map_state_def py_or_def py_lower_def py_strip_def)

theorem map_state_vocabulary_witness:
  "map_state (JStr ''  Open '') = Inr AS_open \<and>
   map_state (JStr (''open'' @ [CHR 0xA0])) = Inr AS_open \<and>
   map_state (JStr ''NogNietOpen'') = Inr AS_open_soon \<and>
   map_state (JStr ''storing'') = Inr AS_breakdown \<and>
   map_state (JStr ''TIJDELIJKBUITENBEDRIJF'') = Inr AS_breakdown \<and>
   map_state (JStr ''InOnderhoud'') = Inr AS_maintenance \<and>
   map_state (JStr ''buitenbedrijf'') = Inr AS_closed \<and>
   map_state (JStr ''Gesloten'') = Inr AS_closed \<and>
   map_state (JStr ''wachtrijgesloten'') = Inr AS_closed \<and>
   map_state (JStr ''geopend'') = Inr AS_closed"
proof -
  have k:
    "py_strip (py_lower ''  Open '') = ''open''"
    "py_strip (py_lower (''open'' @ [CHR 0xA0])) = ''open''"
    "py_strip (py_lower ''NogNietOpen'') = ''nognietopen''"
    "py_strip (py_lower ''storing'') = ''storing''"
    "py_strip (py_lower ''TIJDELIJKBUITENBEDRIJF'') = ''tijdelijkbuitenbedrijf''"
    "py_strip (py_lower ''InOnderhoud'') = ''inonderhoud''"
    "py_strip (py_lower ''buitenbedrijf'') = ''buitenbedrijf''"
    "py_strip (py_lower ''Gesloten'') = ''gesloten''"
    "py_strip (py_lower ''wachtrijgesloten'') = ''wachtrijgesloten''"
    "py_strip (py_lower ''geopend'') = ''geopend''"
    by code_simp+
  show ?thesis
    using map_state_vocabulary [of "''  Open ''"]
      map_state_vocabulary [of "''open'' @ [CHR 0xA0]"]
      map_state_vocabulary [of "''NogNietOpen''"]
      map_state_vocabulary [of "''storing''"] map_state_vocabulary [of "''TIJDELIJKBUITENBEDRIJF''"]
      map_state_vocabulary [of "''InOnderhoud''"] map_state_vocabulary [of "''buitenbedrijf''"]
      map_state_vocabulary [of "''Gesloten''"] map_state_vocabulary [of "''wachtrijgesloten''"]
      map_state_vocabulary [of "''geopend''"]
    unfolding k Let_def by simp
qed

section \<open>Properties of the park status\<close>

text \<open>
  C10. The derived park status is \<open>unknown\<close> for an empty attraction list, \<open>open\<close> when
  some attraction of the list is \<open>open\<close> or \<open>open_soon\<close>, and \<open>closed\<close> otherwise; it
  has no other value.
\<close>

theorem derive_park_status_cases:
  "derive_park_status status_of attractions =
     (if attractions = [] then ''unknown''
      else if \<exists>a \<in> set attractions. status_of a = AS_open \<or> status_of a = AS_open_soon
           then ''open'' else ''closed'')"
proof -
  have "status_value s \<in> {''open'', ''open_soon''} \<longleftrightarrow> s = AS_open \<or> s = AS_open_soon" for s
    by (cases s) simp_all
  then show ?thesis
    by (simp add: derive_park_status_def list_ex_iff)
qed

theorem derive_park_status_cases_witness:
  "derive_park_status id ([] :: AttractionStatus list) = ''unknown'' \<and>
   derive_park_status id [AS_closed, AS_open_soon] = ''open'' \<and>
   derive_park_status id [AS_breakdown, AS_closed, AS_maintenance] = ''closed''"
  using derive_park_status_cases [of id "[]"]
    derive_park_status_cases [of id "[AS_closed, AS_open_soon]"]
    derive_park_status_cases [of id "[AS_breakdown, AS_closed, AS_maintenance]"]
  by simp

section \<open>Properties of the attraction list\<close>

lemma bind_err_Inr: "bind_err m f = Inr y \<longleftrightarrow> (\<exists>x. m = Inr x \<and> f x = Inr y)"
  by (cases m) auto

lemma civil_us_add_minutes:
  assumes "add_minutes dt m = Inr dt'"
  shows "civil_us dt' = civil_us dt + m * 60000000"
proof -
  define total where "total = dt_hour dt * 60 + dt_minute dt + m"
  have dt': "dt' = dt\<lparr>dt_day := dt_day dt + total div 1440,
                       dt_hour := total mod 1440 div 60, dt_minute := total mod 1440 mod 60\<rparr>"
    using assms by (auto simp: add_minutes_def Let_def total_def split: if_splits)
  have "(total div 1440) * 1440 + (total mod 1440 div 60) * 60 + total mod 1440 mod 60 = total"
    by presburger
  then have "((dt_day dt + total div 1440) * 24 + total mod 1440 div 60) * 60 + total mod 1440 mod 60
      = dt_day dt * 1440 + total"
    by (simp add: algebra_simps)
  then show ?thesis
    unfolding dt' civil_us_def by (simp add: total_def algebra_simps)
qed

lemma return_window_Inr:
  assumes "return_window now w = Inr vq"
  shows "vq_state vq = Some VQ_available \<and>
         (\<exists>rs re. return_start vq = Some rs \<and> return_end vq = Some re \<and>
            dt_diff_us re rs = VQ_WINDOW_MINUTES * 60000000)"
  using assms
  by (auto simp: return_window_def Let_def bind_err_Inr dt_diff_us_def dest!: civil_us_add_minutes)

lemma virtual_queue_info_Inr:
  assumes "virtual_queue_info now st w = Inr vq"
  shows "(vq_state vq = Some VQ_available \<longleftrightarrow> return_start vq \<noteq> None \<and> return_end vq \<noteq> None) \<and>
         (\<forall>rs re. return_start vq = Some rs \<longrightarrow> return_end vq = Some re \<longrightarrow>
            dt_diff_us re rs = VQ_WINDOW_MINUTES * 60000000)"
proof (cases "st = (''enabled'' :: string)")
  case True
  with assms have "return_window now w = Inr vq"
    by (simp add: virtual_queue_info_def)
  from return_window_Inr [OF this] show ?thesis by auto
next
  case False
  with assms have "return_start vq = None \<and> return_end vq = None \<and> vq_state vq \<noteq> Some VQ_available"
    unfolding virtual_queue_info_def by (auto split: if_split_asm)
  then show ?thesis by simp
qed

lemma virtual_queue_of_Inr:
  assumes "virtual_queue_of now entry = Inr (Some vq)"
  shows "\<exists>(st :: string) w. virtual_queue_info now st w = Inr vq"
  using assms
  by (auto simp: virtual_queue_of_def bind_err_Inr split: if_split_asm)

lemma attraction_of_vq:
  assumes "attraction_of clock all_entries srm item = Inr (Some a)"
  shows "virtual_queue_of (clock (fst item)) (snd item) = Inr (virtual_queue a)"
  using assms
  by (auto simp: attraction_of_def Let_def bind_err_Inr split: if_splits)

lemma attractions_loop_mem:
  assumes "attractions_loop clock all_entries srm items = Inr out" "a \<in> set out"
  shows "\<exists>item \<in> set items. attraction_of clock all_entries srm item = Inr (Some a)"
  using assms
proof (induction items arbitrary: out)
  case Nil
  then show ?case by simp
next
  case (Cons item items)
  then show ?case
    by (auto simp: bind_err_Inr split: option.splits)
qed

text \<open>
  C2. Every virtual queue of an attraction returned by \<open>fetch_wait_times\<close> has state
  \<open>available\<close> exactly when both \<open>return_start\<close> and \<open>return_end\<close> are present, and
  when they are present \<open>return_end - return_start\<close> is the window of 15 minutes.
\<close>

theorem virtual_queue_window_invariant:
  assumes "fetch_wait_times now clock upstream self = (Inr out, self')"
    and "a \<in> set out" and "virtual_queue a = Some vq"
  shows "(vq_state vq = Some VQ_available \<longleftrightarrow> return_start vq \<noteq> None \<and> return_end vq \<noteq> None) \<and>
         (\<forall>rs re. return_start vq = Some rs \<longrightarrow> return_end vq = Some re \<longrightarrow>
            dt_diff_us re rs = VQ_WINDOW_MINUTES * 60000000)"
proof -
  from assms(1) obtain data where "attractions_of clock data = Inr out \<or> out = []"
    by (auto simp: fetch_wait_times_def split: prod.splits sum.splits)
  with assms(2) obtain data where "attractions_of clock data = Inr out" by auto
  then obtain all_entries where
    "attractions_loop clock all_entries (single_rider_map_of all_entries) all_entries = Inr out"
    by (auto simp: attractions_of_def bind_err_Inr)
  from attractions_loop_mem [OF this assms(2)] obtain item where
    "attraction_of clock all_entries (single_rider_map_of all_entries) item = Inr (Some a)"
    by blast
  from attraction_of_vq [OF this] assms(3)
  have "virtual_queue_of (clock (fst item)) (snd item) = Inr (Some vq)" by simp
  from virtual_queue_of_Inr [OF this] obtain st w where
    "virtual_queue_info (clock (fst item)) st w = Inr vq" by blast
  then show ?thesis by (rule virtual_queue_info_Inr)
qed

theorem virtual_queue_window_invariant_witness:
  "fetch_wait_times 0
     (\<lambda>i. \<lparr>dt_day = ymd2ord 2026 2 20, dt_hour = 14, dt_minute = 0, dt_second = 30,
            dt_microsecond = 0, dt_tzinfo = Some PARK_TIMEZONE\<rparr>)
     (Inr (JObj [(''AttractionInfo'', JArr [JObj [(''Id'', JStr ''python''),
        (''Name'', JStr ''Python''), (''Type'', JStr ''Attraction''), (''State'', JStr ''open''),
        (''WaitingTime'', JInt 10),
        (''VirtualQueue'', JObj [(''State'', JStr ''enabled''), (''WaitingTime'', JInt 20)])]])]))
     \<lparr>wis_cache = JNull, wis_cache_time = None, requests = 0\<rparr>
   = (Inr [\<lparr>al_id = ''python'', al_name = ''Python'', al_status = AS_open,
            al_wait_time = Some 10, single_rider = None,
            virtual_queue = Some \<lparr>vq_available = True, vq_state = Some VQ_available,
              return_start = Some \<lparr>dt_day = 739667, dt_hour = 14, dt_minute = 20, dt_second = 0,
                dt_microsecond = 0, dt_tzinfo = Some PARK_TIMEZONE\<rparr>,
              return_end = Some \<lparr>dt_day = 739667, dt_hour = 14, dt_minute = 35, dt_second = 0,
                dt_microsecond = 0, dt_tzinfo = Some PARK_TIMEZONE\<rparr>\<rparr>\<rparr>],
      \<lparr>wis_cache = JObj [(''AttractionInfo'', JArr [JObj [(''Id'', JStr ''python''),
        (''Name'', JStr ''Python''), (''Type'', JStr ''Attraction''), (''State'', JStr ''open''),
        (''WaitingTime'', JInt 10),
        (''VirtualQueue'', JObj [(''State'', JStr ''enabled''), (''WaitingTime'', JInt 20)])]])],
       wis_cache_time = Some 0, requests = 1\<rparr>) \<and>
   dt_diff_us
     \<lparr>dt_day = 739667, dt_hour = 14, dt_minute = 35, dt_second = 0,
        dt_microsecond = 0, dt_tzinfo = Some PARK_TIMEZONE\<rparr>
     \<lparr>dt_day = 739667, dt_hour = 14, dt_minute = 20, dt_second = 0,
        dt_microsecond = 0, dt_tzinfo = Some PARK_TIMEZONE\<rparr>
   = VQ_WINDOW_MINUTES * 60000000"
  (is "?run = (Inr [?a], ?self') \<and> ?diff")
proof -
  have run: "?run = (Inr [?a], ?self')"
    by code_simp
  have "?diff"
    using virtual_queue_window_invariant [OF run, of ?a "the (virtual_queue ?a)"]
    by simp
  with run show ?thesis by simp
qed

section \<open>Properties of the return window\<close>

lemma int_of_str_empty: "int_of_str [] = None"
  by (simp add: int_of_str_def)

lemma wait_min_value:
  "except_value_type (py_int (py_or w (JInt 0))) 0 =
     (if \<exists>p. w = JFloat (FInf p) then Inl OverflowError
      else Inr (case w of JInt n \<Rightarrow> n | JBool b \<Rightarrow> (if b then 1 else 0)
          | JFloat (FFinite a e) \<Rightarrow> float_trunc a e
          | JStr s \<Rightarrow> (case int_of_str s of None \<Rightarrow> 0 | Some n \<Rightarrow> n) | _ \<Rightarrow> 0))"
proof (cases w)
  case (JStr s)
  then show ?thesis
    by (cases "s = []"; cases "int_of_str s") (simp_all add: py_or_def int_of_str_empty)
next
  case (JFloat f)
  then show ?thesis
    by (cases f) (simp_all add: py_or_def float_trunc_def)
qed (simp_all add: py_or_def)

lemma add_minutes_Inr_iff:
  "add_minutes dt m = Inr dt' \<longleftrightarrow>
     - 999999999 \<le> m div 1440 \<and> m div 1440 \<le> 999999999 \<and>
     0 < dt_day dt + (dt_hour dt * 60 + dt_minute dt + m) div 1440 \<and>
     dt_day dt + (dt_hour dt * 60 + dt_minute dt + m) div 1440 \<le> MAXORDINAL \<and>
     dt' = dt\<lparr>dt_day := dt_day dt + (dt_hour dt * 60 + dt_minute dt + m) div 1440,
              dt_hour := (dt_hour dt * 60 + dt_minute dt + m) mod 1440 div 60,
              dt_minute := (dt_hour dt * 60 + dt_minute dt + m) mod 1440 mod 60\<rparr>"
  by (auto simp: add_minutes_def Let_def)

lemma add_minutes_Inl: "add_minutes dt m = Inl e \<Longrightarrow> e = OverflowError"
  by (auto simp: add_minutes_def Let_def split: if_split_asm)

lemma return_window_Inl:
  assumes "return_window now w = Inl e"
  shows "e = OverflowError"
proof -
  let ?np = "truncate_to_minute now"
  consider (inf) "\<exists>p. w = JFloat (FInf p)"
    | (fin) m where "except_value_type (py_int (py_or w (JInt 0))) 0 = Inr m"
    using wait_min_value [of w] by (auto split: if_split_asm)
  then show ?thesis
  proof cases
    case inf
    with assms wait_min_value [of w] show ?thesis
      by (auto simp: return_window_def Let_def)
  next
    case fin
    show ?thesis
    proof (cases "add_minutes ?np m")
      case (Inl e')
      with assms fin add_minutes_Inl [OF Inl] show ?thesis
        by (simp add: return_window_def Let_def)
    next
      case (Inr rs)
      show ?thesis
      proof (cases "add_minutes rs VQ_WINDOW_MINUTES")
        case (Inl e')
        with assms fin Inr add_minutes_Inl [OF Inl] show ?thesis
          by (simp add: return_window_def Let_def)
      next
        case Inr2: (Inr re)
        with assms fin Inr show ?thesis
          by (simp add: return_window_def Let_def)
      qed
    qed
  qed
qed

lemma day_step:
  "(t + 15) div 1440 = t div 1440 + (t mod 1440 div 60 * 60 + t mod 1440 mod 60 + 15) div 1440"
  for t :: int
proof -
  have "t mod 1440 div 60 * 60 + t mod 1440 mod 60 = t mod 1440"
    by presburger
  then show ?thesis
    using div_add1_eq [of t 15 1440] by simp
qed

lemma return_window_Inr_iff:
  assumes m: "except_value_type (py_int (py_or w (JInt 0))) 0 = Inr m"
  shows "(\<exists>vq. return_window now w = Inr vq) \<longleftrightarrow>
     - 999999999 \<le> m div 1440 \<and> m div 1440 \<le> 999999999 \<and>
     0 < dt_day now + (dt_hour now * 60 + dt_minute now + m) div 1440 \<and>
     dt_day now + (dt_hour now * 60 + dt_minute now + m + 15) div 1440 \<le> MAXORDINAL"
proof -
  define t where "t = dt_hour now * 60 + dt_minute now + m"
  have ge: "0 \<le> (t mod 1440 div 60 * 60 + t mod 1440 mod 60 + 15) div 1440"
    by (simp add: pos_imp_zdiv_nonneg_iff)
  have "(\<exists>vq. return_window now w = Inr vq) \<longleftrightarrow>
      (\<exists>rs re. add_minutes (truncate_to_minute now) m = Inr rs \<and>
         add_minutes rs VQ_WINDOW_MINUTES = Inr re)"
    using m by (auto simp: return_window_def Let_def bind_err_Inr)
  also have "\<dots> \<longleftrightarrow>
     - 999999999 \<le> m div 1440 \<and> m div 1440 \<le> 999999999 \<and>
     0 < dt_day now + t div 1440 \<and> dt_day now + t div 1440 \<le> MAXORDINAL \<and>
     0 < dt_day now + t div 1440 + (t mod 1440 div 60 * 60 + t mod 1440 mod 60 + 15) div 1440 \<and>
     dt_day now + t div 1440 + (t mod 1440 div 60 * 60 + t mod 1440 mod 60 + 15) div 1440
       \<le> MAXORDINAL"
    unfolding add_minutes_Inr_iff
    by (auto simp: truncate_to_minute_def VQ_WINDOW_MINUTES_def t_def)
  also have "\<dots> \<longleftrightarrow>
     - 999999999 \<le> m div 1440 \<and> m div 1440 \<le> 999999999 \<and>
     0 < dt_day now + t div 1440 \<and> dt_day now + (t + 15) div 1440 \<le> MAXORDINAL"
    using ge unfolding day_step [of t] by auto
  finally show ?thesis
    by (simp add: t_def)
qed

lemma add_minutes_fields:
  assumes "add_minutes dt m = Inr dt'"
  shows "dt_second dt' = dt_second dt \<and> dt_microsecond dt' = dt_microsecond dt \<and>
         dt_tzinfo dt' = dt_tzinfo dt"
  using assms by (auto simp: add_minutes_def Let_def split: if_splits)

lemma return_window_value:
  assumes "return_window now w = Inr vq"
    and "except_value_type (py_int (py_or w (JInt 0))) 0 = Inr m"
  shows "\<exists>rs re. vq = \<lparr>vq_available = True, vq_state = Some VQ_available,
                      return_start = Some rs, return_end = Some re\<rparr> \<and>
            civil_us rs = civil_us (truncate_to_minute now) + m * 60000000 \<and>
            civil_us re = civil_us rs + VQ_WINDOW_MINUTES * 60000000 \<and>
            dt_second rs = 0 \<and> dt_microsecond rs = 0 \<and>
            dt_tzinfo rs = dt_tzinfo now \<and> dt_tzinfo re = dt_tzinfo now"
proof -
  from assms obtain rs re where
    rs: "add_minutes (truncate_to_minute now) m = Inr rs" and
    re: "add_minutes rs VQ_WINDOW_MINUTES = Inr re" and
    vq: "vq = \<lparr>vq_available = True, vq_state = Some VQ_available,
               return_start = Some rs, return_end = Some re\<rparr>"
    by (auto simp: return_window_def Let_def bind_err_Inr)
  from add_minutes_fields [OF rs] add_minutes_fields [OF re]
  have "dt_second rs = 0 \<and> dt_microsecond rs = 0 \<and>
        dt_tzinfo rs = dt_tzinfo now \<and> dt_tzinfo re = dt_tzinfo now"
    by (simp add: truncate_to_minute_def)
  with civil_us_add_minutes [OF rs] civil_us_add_minutes [OF re] vq
  show ?thesis by blast
qed

text \<open>
  C3, as amended. On the lowered raw state \<open>enabled\<close> the wait is
  \<open>m = int(vq_wait or 0)\<close>: an int as it is (negative ones included), a bool as 0 or
  1, a finite float cut towards zero, a str that \<open>int\<close> reads as that number, and 0
  when \<open>vq_wait\<close> is absent or falsy or when \<open>int\<close> raises ValueError or TypeError
  (a str that is no integer literal, \<open>nan\<close>, a list, a dict). When \<open>vq_wait\<close> is not
  an infinite float, \<open>m\<close> fits a \<open>timedelta\<close> and both dates stay within the years
  1 to 9999, the result has state \<open>available\<close>, \<open>return_start\<close> is the park clock
  with seconds and microseconds set to 0 plus \<open>m\<close> minutes and \<open>return_end\<close> is
  15 minutes later, both in the clock's time zone. In every other case the block
  raises OverflowError. With the clock at 2026-02-20T14:00:00: a wait of 20 gives
  14:20 to 14:35, the str \<open>15\<close> gives 14:15 to 14:30, the str \<open> -1_0\<close> gives
  13:50 to 14:05, a no-break space before \<open>5\<close> gives 14:05 to 14:20, the unit
  separator before \<open>5\<close> gives 14:00 to 14:15 as does \<open>soon\<close>, \<open>None\<close>, \<open>nan\<close> and a
  list, 14.5 gives 14:14 to 14:29 and -14.5 gives 13:46 to 14:01.
\<close>

theorem enabled_return_window:
  "(let m = (case w of JInt n \<Rightarrow> n | JBool b \<Rightarrow> (if b then 1 else 0)
             | JFloat (FFinite a e) \<Rightarrow> float_trunc a e
             | JStr s \<Rightarrow> (case int_of_str s of None \<Rightarrow> 0 | Some n \<Rightarrow> n) | _ \<Rightarrow> 0);
        in_range = (- 999999999 \<le> m div 1440 \<and> m div 1440 \<le> 999999999 \<and>
          0 < dt_day now + (dt_hour now * 60 + dt_minute now + m) div 1440 \<and>
          dt_day now + (dt_hour now * 60 + dt_minute now + m + 15) div 1440 \<le> MAXORDINAL)
    in if (\<exists>p. w = JFloat (FInf p)) \<or> \<not> in_range
       then virtual_queue_info now ''enabled'' w = Inl OverflowError
       else (\<exists>rs re.
          virtual_queue_info now ''enabled'' w =
            Inr \<lparr>vq_available = True, vq_state = Some VQ_available,
                 return_start = Some rs, return_end = Some re\<rparr> \<and>
          civil_us rs = civil_us (truncate_to_minute now) + m * 60000000 \<and>
          civil_us re = civil_us rs + VQ_WINDOW_MINUTES * 60000000 \<and>
          dt_second rs = 0 \<and> dt_microsecond rs = 0 \<and>
          dt_tzinfo rs = dt_tzinfo now \<and> dt_tzinfo re = dt_tzinfo now)) \<and>
   (let at = (\<lambda>h m. \<lparr>dt_day = ymd2ord 2026 2 20, dt_hour = h, dt_minute = m, dt_second = 0,
                 dt_microsecond = 0, dt_tzinfo = Some PARK_TIMEZONE\<rparr>);
        window = (\<lambda>rs re. Inr \<lparr>vq_available = True, vq_state = Some VQ_available,
                 return_start = Some rs, return_end = Some re\<rparr>)
    in virtual_queue_info (at 14 0) ''enabled'' (JInt 20) = window (at 14 20) (at 14 35) \<and>
       virtual_queue_info (at 14 0) ''enabled'' (JStr ''15'') = window (at 14 15) (at 14 30) \<and>
       virtual_queue_info (at 14 0) ''enabled'' (JStr '' -1_0'') = window (at 13 50) (at 14 5) \<and>
       virtual_queue_info (at 14 0) ''enabled'' (JStr [CHR 0xA0, CHR ''5''])
         = window (at 14 5) (at 14 20) \<and>
       virtual_queue_info (at 14 0) ''enabled'' (JStr [CHR 0x1F, CHR ''5''])
         = window (at 14 0) (at 14 15) \<and>
       virtual_queue_info (at 14 0) ''enabled'' (JStr ''soon'') = window (at 14 0) (at 14 15) \<and>
       virtual_queue_info (at 14 0) ''enabled'' JNull = window (at 14 0) (at 14 15) \<and>
       virtual_queue_info (at 14 0) ''enabled'' (JFloat FNaN) = window (at 14 0) (at 14 15) \<and>
       virtual_queue_info (at 14 0) ''enabled'' (JArr [JInt 7]) = window (at 14 0) (at 14 15) \<and>
       virtual_queue_info (at 14 0) ''enabled'' (JFloat (FFinite 29 (- 1)))
         = window (at 14 14) (at 14 29) \<and>
       virtual_queue_info (at 14 0) ''enabled'' (JFloat (FFinite (- 29) (- 1)))
         = window (at 13 46) (at 14 1))"
proof -
  have info: "virtual_queue_info now ''enabled'' w = return_window now w" for now w
    by (simp add: virtual_queue_info_def)
  define m where "m = (case w of JInt n \<Rightarrow> n | JBool b \<Rightarrow> (if b then 1 else 0)
             | JFloat (FFinite a e) \<Rightarrow> float_trunc a e
             | JStr s \<Rightarrow> (case int_of_str s of None \<Rightarrow> 0 | Some n \<Rightarrow> n) | _ \<Rightarrow> 0)"
  define in_range where "in_range \<longleftrightarrow> - 999999999 \<le> m div 1440 \<and> m div 1440 \<le> 999999999 \<and>
          0 < dt_day now + (dt_hour now * 60 + dt_minute now + m) div 1440 \<and>
          dt_day now + (dt_hour now * 60 + dt_minute now + m + 15) div 1440 \<le> MAXORDINAL"
  have general: "if (\<exists>p. w = JFloat (FInf p)) \<or> \<not> in_range
       then return_window now w = Inl OverflowError
       else (\<exists>rs re.
          return_window now w =
            Inr \<lparr>vq_available = True, vq_state = Some VQ_available,
                 return_start = Some rs, return_end = Some re\<rparr> \<and>
          civil_us rs = civil_us (truncate_to_minute now) + m * 60000000 \<and>
          civil_us re = civil_us rs + VQ_WINDOW_MINUTES * 60000000 \<and>
          dt_second rs = 0 \<and> dt_microsecond rs = 0 \<and>
          dt_tzinfo rs = dt_tzinfo now \<and> dt_tzinfo re = dt_tzinfo now)"
  proof (cases "\<exists>p. w = JFloat (FInf p)")
    case True
    then have "return_window now w = Inl OverflowError"
      using wait_min_value [of w] by (auto simp: return_window_def Let_def)
    with True show ?thesis by simp
  next
    case False
    with wait_min_value [of w]
    have wm: "except_value_type (py_int (py_or w (JInt 0))) 0 = Inr m"
      unfolding m_def by simp
    show ?thesis
    proof (cases in_range)
      case True
      with return_window_Inr_iff [OF wm, of now] obtain vq where vq: "return_window now w = Inr vq"
        unfolding in_range_def by blast
      from return_window_value [OF vq wm] vq \<open>\<not> (\<exists>p. w = JFloat (FInf p))\<close> True
      show ?thesis by auto
    next
      case nr: False
      with return_window_Inr_iff [OF wm, of now] have "\<nexists>vq. return_window now w = Inr vq"
        unfolding in_range_def by blast
      then obtain e where "return_window now w = Inl e"
        by (cases "return_window now w") auto
      with return_window_Inl [OF this] nr show ?thesis by simp
    qed
  qed
  have examples: "(let at = (\<lambda>h m. \<lparr>dt_day = ymd2ord 2026 2 20, dt_hour = h, dt_minute = m, dt_second = 0,
                 dt_microsecond = 0, dt_tzinfo = Some PARK_TIMEZONE\<rparr>);
        window = (\<lambda>rs re. Inr \<lparr>vq_available = True, vq_state = Some VQ_available,
                 return_start = Some rs, return_end = Some re\<rparr>)
    in virtual_queue_info (at 14 0) ''enabled'' (JInt 20) = window (at 14 20) (at 14 35) \<and>
       virtual_queue_info (at 14 0) ''enabled'' (JStr ''15'') = window (at 14 15) (at 14 30) \<and>
       virtual_queue_info (at 14 0) ''enabled'' (JStr '' -1_0'') = window (at 13 50) (at 14 5) \<and>
       virtual_queue_info (at 14 0) ''enabled'' (JStr [CHR 0xA0, CHR ''5''])
         = window (at 14 5) (at 14 20) \<and>
       virtual_queue_info (at 14 0) ''enabled'' (JStr [CHR 0x1F, CHR ''5''])
         = window (at 14 0) (at 14 15) \<and>
       virtual_queue_info (at 14 0) ''enabled'' (JStr ''soon'') = window (at 14 0) (at 14 15) \<and>
       virtual_queue_info (at 14 0) ''enabled'' JNull = window (at 14 0) (at 14 15) \<and>
       virtual_queue_info (at 14 0) ''enabled'' (JFloat FNaN) = window (at 14 0) (at 14 15) \<and>
       virtual_queue_info (at 14 0) ''enabled'' (JArr [JInt 7]) = window (at 14 0) (at 14 15) \<and>
       virtual_queue_info (at 14 0) ''enabled'' (JFloat (FFinite 29 (- 1)))
         = window (at 14 14) (at 14 29) \<and>
       virtual_queue_info (at 14 0) ''enabled'' (JFloat (FFinite (- 29) (- 1)))
         = window (at 13 46) (at 14 1))"
    by code_simp
  from general have "(let m = (case w of JInt n \<Rightarrow> n | JBool b \<Rightarrow> (if b then 1 else 0)
             | JFloat (FFinite a e) \<Rightarrow> float_trunc a e
             | JStr s \<Rightarrow> (case int_of_str s of None \<Rightarrow> 0 | Some n \<Rightarrow> n) | _ \<Rightarrow> 0);
        in_range = (- 999999999 \<le> m div 1440 \<and> m div 1440 \<le> 999999999 \<and>
          0 < dt_day now + (dt_hour now * 60 + dt_minute now + m) div 1440 \<and>
          dt_day now + (dt_hour now * 60 + dt_minute now + m + 15) div 1440 \<le> MAXORDINAL)
    in if (\<exists>p. w = JFloat (FInf p)) \<or> \<not> in_range
       then virtual_queue_info now ''enabled'' w = Inl OverflowError
       else (\<exists>rs re.
          virtual_queue_info now ''enabled'' w =
            Inr \<lparr>vq_available = True, vq_state = Some VQ_available,
                 return_start = Some rs, return_end = Some re\<rparr> \<and>
          civil_us rs = civil_us (truncate_to_minute now) + m * 60000000 \<and>
          civil_us re = civil_us rs + VQ_WINDOW_MINUTES * 60000000 \<and>
          dt_second rs = 0 \<and> dt_microsecond rs = 0 \<and>
          dt_tzinfo rs = dt_tzinfo now \<and> dt_tzinfo re = dt_tzinfo now))"
    unfolding Let_def info m_def in_range_def .
  from this examples show ?thesis by (rule conjI)
qed

theorem enabled_return_window_witness:
  "(\<exists>rs re.
      virtual_queue_info
        \<lparr>dt_day = ymd2ord 2026 2 20, dt_hour = 23, dt_minute = 50, dt_second = 42,
           dt_microsecond = 7, dt_tzinfo = Some PARK_TIMEZONE\<rparr>
        ''enabled'' (JStr ''soon'')
      = Inr \<lparr>vq_available = True, vq_state = Some VQ_available,
             return_start = Some rs, return_end = Some re\<rparr> \<and>
      civil_us rs = civil_us
        \<lparr>dt_day = ymd2ord 2026 2 20, dt_hour = 23, dt_minute = 50, dt_second = 0,
           dt_microsecond = 0, dt_tzinfo = Some PARK_TIMEZONE\<rparr> \<and>
      civil_us re = civil_us
        \<lparr>dt_day = ymd2ord 2026 2 21, dt_hour = 0, dt_minute = 5, dt_second = 0,
           dt_microsecond = 0, dt_tzinfo = Some PARK_TIMEZONE\<rparr>) \<and>
   virtual_queue_info
     \<lparr>dt_day = ymd2ord 2026 2 20, dt_hour = 14, dt_minute = 0, dt_second = 0,
        dt_microsecond = 0, dt_tzinfo = Some PARK_TIMEZONE\<rparr>
     ''enabled'' (JInt 5000000000) = Inl OverflowError \<and>
   virtual_queue_info
     \<lparr>dt_day = ymd2ord 2026 2 20, dt_hour = 14, dt_minute = 0, dt_second = 0,
        dt_microsecond = 0, dt_tzinfo = Some PARK_TIMEZONE\<rparr>
     ''enabled'' (JFloat (FInf True)) = Inl OverflowError"
proof -
  let ?late = "\<lparr>dt_day = ymd2ord 2026 2 20, dt_hour = 23, dt_minute = 50, dt_second = 42,
           dt_microsecond = 7, dt_tzinfo = Some PARK_TIMEZONE\<rparr>"
  let ?noon = "\<lparr>dt_day = ymd2ord 2026 2 20, dt_hour = 14, dt_minute = 0, dt_second = 0,
        dt_microsecond = 0, dt_tzinfo = Some PARK_TIMEZONE\<rparr>"
  have s: "int_of_str ''soon'' = None"
    by code_simp
  have d: "ymd2ord 2026 2 20 = 739667" "ymd2ord 2026 2 21 = 739668"
    by code_simp+
  from enabled_return_window [of "JStr ''soon''" ?late, THEN conjunct1]
  obtain rs re where
    a: "virtual_queue_info ?late ''enabled'' (JStr ''soon'')
        = Inr \<lparr>vq_available = True, vq_state = Some VQ_available,
             return_start = Some rs, return_end = Some re\<rparr>" and
    b: "civil_us rs = civil_us (truncate_to_minute ?late)" and
    c: "civil_us re = civil_us rs + 900000000"
    by (auto simp: Let_def s d MAXORDINAL_def VQ_WINDOW_MINUTES_def)
  have "civil_us rs = civil_us
        \<lparr>dt_day = ymd2ord 2026 2 20, dt_hour = 23, dt_minute = 50, dt_second = 0,
           dt_microsecond = 0, dt_tzinfo = Some PARK_TIMEZONE\<rparr>"
    using b by (simp add: truncate_to_minute_def)
  moreover have "civil_us re = civil_us
        \<lparr>dt_day = ymd2ord 2026 2 21, dt_hour = 0, dt_minute = 5, dt_second = 0,
           dt_microsecond = 0, dt_tzinfo = Some PARK_TIMEZONE\<rparr>"
    using b c by (simp add: truncate_to_minute_def civil_us_def d)
  moreover have "virtual_queue_info ?noon ''enabled'' (JInt 5000000000) = Inl OverflowError"
    using enabled_return_window [of "JInt 5000000000" ?noon, THEN conjunct1]
    by (simp add: Let_def d MAXORDINAL_def)
  moreover have "virtual_queue_info ?noon ''enabled'' (JFloat (FInf True)) = Inl OverflowError"
    using enabled_return_window [of "JFloat (FInf True)" ?noon, THEN conjunct1]
    by (simp add: Let_def d MAXORDINAL_def ex_bool_eq)
  ultimately show ?thesis
    using a by blast
qed

text \<open>
  The claim as stated fails on a negative wait: at 14:00 a raw wait of -5 gives the
  window 13:55 to 14:10, not the window 14:00 to 14:15 of a wait of 0.
\<close>

theorem negative_wait_counterexample:
  "virtual_queue_info
     \<lparr>dt_day = ymd2ord 2026 2 20, dt_hour = 14, dt_minute = 0, dt_second = 0,
        dt_microsecond = 0, dt_tzinfo = Some PARK_TIMEZONE\<rparr>
     ''enabled'' (JInt (- 5))
   = Inr \<lparr>vq_available = True, vq_state = Some VQ_available,
       return_start = Some \<lparr>dt_day = ymd2ord 2026 2 20, dt_hour = 13, dt_minute = 55,
         dt_second = 0, dt_microsecond = 0, dt_tzinfo = Some PARK_TIMEZONE\<rparr>,
       return_end = Some \<lparr>dt_day = ymd2ord 2026 2 20, dt_hour = 14, dt_minute = 10,
         dt_second = 0, dt_microsecond = 0, dt_tzinfo = Some PARK_TIMEZONE\<rparr>\<rparr> \<and>
   virtual_queue_info
     \<lparr>dt_day = ymd2ord 2026 2 20, dt_hour = 14, dt_minute = 0, dt_second = 0,
        dt_microsecond = 0, dt_tzinfo = Some PARK_TIMEZONE\<rparr>
     ''enabled'' (JInt (- 5))
   \<noteq> virtual_queue_info
     \<lparr>dt_day = ymd2ord 2026 2 20, dt_hour = 14, dt_minute = 0, dt_second = 0,
        dt_microsecond = 0, dt_tzinfo = Some PARK_TIMEZONE\<rparr>
     ''enabled'' (JInt 0)"
  by code_simp

section \<open>Properties of the single-rider merge\<close>















section \<open>Properties of the response cache\<close>




section \<open>Properties of the shows\<close>

lemma for_each_mem:
  assumes "for_each f xs = Inr out" "y \<in> set out"
  shows "\<exists>x \<in> set xs. f x = Inr (Some y)"
  using assms
proof (induction xs arbitrary: out)
  case Nil
  then show ?case by simp
next
  case (Cons x xs)
  from Cons.prems(1) obtain r rest where
    r: "f x = Inr r" and rest: "for_each f xs = Inr rest"
    and out: "out = (case r of None \<Rightarrow> rest | Some y \<Rightarrow> y # rest)"
    by (auto simp: bind_err_Inr)
  show ?case
  proof (cases "y \<in> set rest")
    case True
    from Cons.IH [OF rest True] show ?thesis by auto
  next
    case False
    with Cons.prems(2) out have "r = Some y"
      by (cases r) auto
    with r show ?thesis by simp
  qed
qed

lemma has_upcoming_of_Inr:
  assumes "has_upcoming_of now_park now_offset sts = Inr b"
  shows "b \<longleftrightarrow> (\<exists>st \<in> set sts. dt_ge (start_date_time st) now_park now_offset = Inr True)"
  using assms
proof (induction sts)
  case Nil
  then show ?case by simp
next
  case (Cons st sts)
  then show ?case
    by (cases "dt_ge (start_date_time st) now_park now_offset") (auto split: if_split_asm)
qed

lemma show_of_Some:
  assumes "show_of fromisoformat list_sort now_park now_offset entry = Inr (Some s)"
  shows "show_status s =
    (if \<exists>st \<in> set (show_times s). dt_ge (start_date_time st) now_park now_offset = Inr True
     then ''open'' else ''closed'')"
proof -
  from assms obtain sts b where
    h: "has_upcoming_of now_park now_offset sts = Inr b"
    and s: "show_times s = sts" "show_status s = (if b then ''open'' else ''closed'')"
    by (auto simp: show_of_def Let_def bind_err_Inr split: if_split_asm)
  from has_upcoming_of_Inr [OF h] s show ?thesis by simp
qed

lemma shows_of_mem:
  assumes "shows_of fromisoformat list_sort now_park now_offset data = Inr out" "s \<in> set out"
  shows "\<exists>entry. show_of fromisoformat list_sort now_park now_offset entry = Inr (Some s)"
  using assms for_each_mem [of "show_of fromisoformat list_sort now_park now_offset" _ out s]
  by (auto simp: shows_of_def bind_err_Inr)

lemma fetch_shows_Inr:
  assumes "fst (fetch_shows now fromisoformat list_sort now_park now_offset upstream self)
             = Inr out" "s \<in> set out"
  shows "\<exists>data. shows_of fromisoformat list_sort now_park now_offset data = Inr out"
  using assms
  by (cases "fetch_wis now upstream self"; cases "fst (fetch_wis now upstream self)")
     (auto simp: fetch_shows_def)

text \<open>
  C6, as amended. The status of every show that \<open>fetch_shows\<close> returns is derived
  from its show times and the park clock alone: it is \<open>open\<close> if and only if at least
  one of its show times has not yet started, that is \<open>start_date_time >= now_park\<close>,
  and \<open>closed\<close> otherwise. The end of a show time plays no part. With the clock at
  2026-02-20T14:00:00 in the park (an hour ahead of UTC): a show starting at 14:00 is
  open, one that runs from 13:50 to 14:20 is closed, as is one that ended at 11:20,
  and one starting at 13:30 UTC is open.
\<close>

theorem show_status_derived:
  assumes "fst (fetch_shows now fromisoformat list_sort now_park now_offset upstream self)
             = Inr out"
    and "s \<in> set out"
  shows
    "show_status s =
       (if \<exists>st \<in> set (show_times s).
             dt_ge (start_date_time st) now_park now_offset = Inr True
        then ''open'' else ''closed'') \<and>
     (let at = (\<lambda>h m tz. \<lparr>dt_day = ymd2ord 2026 2 20, dt_hour = h, dt_minute = m,
                   dt_second = 0, dt_microsecond = 0, dt_tzinfo = tz\<rparr>);
          iso = map_of
            [(JStr ''2026-02-20T11:00:00'', at 11 0 None),
             (JStr ''2026-02-20T11:20:00'', at 11 20 None),
             (JStr ''2026-02-20T13:50:00'', at 13 50 None),
             (JStr ''2026-02-20T14:00:00'', at 14 0 None),
             (JStr ''2026-02-20T14:20:00'', at 14 20 None),
             (JStr ''2026-02-20T13:30:00+00:00'', at 13 30 (Some (FixedOffset 0))),
             (JStr ''2026-02-20T14:20:00+00:00'', at 14 20 (Some (FixedOffset 0)))];
          by_start = sort_key (\<lambda>st. civil_us (start_date_time st));
          payload = (\<lambda>key a b. JObj [(''AttractionInfo'', JArr
            [JObj [(''Id'', JStr ''Raveleijn''), (''Name'', JStr ''Raveleijn''),
                   (''Type'', JStr ''Shows en Entertainment''), (''Status'', JStr ''open''),
                   (key, JArr [JObj [(''StartDateTime'', JStr a),
                                     (''EndDateTime'', JStr b)]])]])]);
          result = (\<lambda>status a b. Inr
            [\<lparr>show_id = ''raveleijn'', show_name = ''Raveleijn'', show_status = status,
              show_times = [\<lparr>start_date_time = a, end_date_time = b,
                             edition = Some ''Showtime''\<rparr>]\<rparr>]);
          park = Some PARK_TIMEZONE; utc = Some (FixedOffset 0)
      in shows_of iso by_start (at 14 0 park) 3600000000
           (payload ''ShowTimes'' ''2026-02-20T14:00:00'' ''2026-02-20T14:20:00'')
           = result ''open'' (at 14 0 park) (at 14 20 park) \<and>
         shows_of iso by_start (at 14 0 park) 3600000000
           (payload ''ShowTimes'' ''2026-02-20T13:50:00'' ''2026-02-20T14:20:00'')
           = result ''closed'' (at 13 50 park) (at 14 20 park) \<and>
         shows_of iso by_start (at 14 0 park) 3600000000
           (payload ''PastShowTimes'' ''2026-02-20T11:00:00'' ''2026-02-20T11:20:00'')
           = result ''closed'' (at 11 0 park) (at 11 20 park) \<and>
         shows_of iso by_start (at 14 0 park) 3600000000
           (payload ''ShowTimes'' ''2026-02-20T13:30:00+00:00'' ''2026-02-20T14:20:00+00:00'')
           = result ''open'' (at 13 30 utc) (at 14 20 utc))"
proof -
  from fetch_shows_Inr [OF assms] obtain data where
    "shows_of fromisoformat list_sort now_park now_offset data = Inr out" by blast
  from shows_of_mem [OF this assms(2)] obtain entry where
    "show_of fromisoformat list_sort now_park now_offset entry = Inr (Some s)" by blast
  then have general: "show_status s =
       (if \<exists>st \<in> set (show_times s).
             dt_ge (start_date_time st) now_park now_offset = Inr True
        then ''open'' else ''closed'')"
    by (rule show_of_Some)
  have examples: "(let at = (\<lambda>h m tz. \<lparr>dt_day = ymd2ord 2026 2 20, dt_hour = h, dt_minute = m,
                   dt_second = 0, dt_microsecond = 0, dt_tzinfo = tz\<rparr>);
          iso = map_of
            [(JStr ''2026-02-20T11:00:00'', at 11 0 None),
             (JStr ''2026-02-20T11:20:00'', at 11 20 None),
             (JStr ''2026-02-20T13:50:00'', at 13 50 None),
             (JStr ''2026-02-20T14:00:00'', at 14 0 None),
             (JStr ''2026-02-20T14:20:00'', at 14 20 None),
             (JStr ''2026-02-20T13:30:00+00:00'', at 13 30 (Some (FixedOffset 0))),
             (JStr ''2026-02-20T14:20:00+00:00'', at 14 20 (Some (FixedOffset 0)))];
          by_start = sort_key (\<lambda>st. civil_us (start_date_time st));
          payload = (\<lambda>key a b. JObj [(''AttractionInfo'', JArr
            [JObj [(''Id'', JStr ''Raveleijn''), (''Name'', JStr ''Raveleijn''),
                   (''Type'', JStr ''Shows en Entertainment''), (''Status'', JStr ''open''),
                   (key, JArr [JObj [(''StartDateTime'', JStr a),
                                     (''EndDateTime'', JStr b)]])]])]);
          result = (\<lambda>status a b. Inr
            [\<lparr>show_id = ''raveleijn'', show_name = ''Raveleijn'', show_status = status,
              show_times = [\<lparr>start_date_time = a, end_date_time = b,
                             edition = Some ''Showtime''\<rparr>]\<rparr>]);
          park = Some PARK_TIMEZONE; utc = Some (FixedOffset 0)
      in shows_of iso by_start (at 14 0 park) 3600000000
           (payload ''ShowTimes'' ''2026-02-20T14:00:00'' ''2026-02-20T14:20:00'')
           = result ''open'' (at 14 0 park) (at 14 20 park) \<and>
         shows_of iso by_start (at 14 0 park) 3600000000
           (payload ''ShowTimes'' ''2026-02-20T13:50:00'' ''2026-02-20T14:20:00'')
           = result ''closed'' (at 13 50 park) (at 14 20 park) \<and>
         shows_of iso by_start (at 14 0 park) 3600000000
           (payload ''PastShowTimes'' ''2026-02-20T11:00:00'' ''2026-02-20T11:20:00'')
           = result ''closed'' (at 11 0 park) (at 11 20 park) \<and>
         shows_of iso by_start (at 14 0 park) 3600000000
           (payload ''ShowTimes'' ''2026-02-20T13:30:00+00:00'' ''2026-02-20T14:20:00+00:00'')
           = result ''open'' (at 13 30 utc) (at 14 20 utc))"
    by code_simp
  from general examples show ?thesis by (rule conjI)
qed

theorem show_status_derived_witness:
  "fst (fetch_shows 0
      (map_of
        [(JStr ''2026-02-20T13:50:00'', \<lparr>dt_day = ymd2ord 2026 2 20, dt_hour = 13, dt_minute = 50, dt_second = 0,
          dt_microsecond = 0, dt_tzinfo = None\<rparr>),
         (JStr ''2026-02-20T14:20:00'', \<lparr>dt_day = ymd2ord 2026 2 20, dt_hour = 14, dt_minute = 20, dt_second = 0,
          dt_microsecond = 0, dt_tzinfo = None\<rparr>),
         (JStr ''2026-02-20T15:00:00'', \<lparr>dt_day = ymd2ord 2026 2 20, dt_hour = 15, dt_minute = 0, dt_second = 0,
          dt_microsecond = 0, dt_tzinfo = None\<rparr>),
         (JStr ''2026-02-20T15:30:00'', \<lparr>dt_day = ymd2ord 2026 2 20, dt_hour = 15, dt_minute = 30, dt_second = 0,
          dt_microsecond = 0, dt_tzinfo = None\<rparr>)])
      (sort_key (\<lambda>st. civil_us (start_date_time st)))
      \<lparr>dt_day = ymd2ord 2026 2 20, dt_hour = 14, dt_minute = 0, dt_second = 0,
          dt_microsecond = 0, dt_tzinfo = Some PARK_TIMEZONE\<rparr>
      3600000000
      (Inr (JObj [(''AttractionInfo'', JArr
        [JObj [(''Id'', JStr ''Raveleijn''), (''Name'', JStr ''Raveleijn''),
               (''Type'', JStr ''Shows en Entertainment''),
               (''ShowTimes'', JArr
               [JObj [(''StartDateTime'', JStr ''2026-02-20T15:00:00''), (''EndDateTime'', JStr ''2026-02-20T15:30:00'')],
                JObj [(''StartDateTime'', JStr ''2026-02-20T13:50:00''), (''EndDateTime'', JStr ''2026-02-20T14:20:00'')]])]])]))
      \<lparr>wis_cache = JNull, wis_cache_time = None, requests = 0\<rparr>)
   = Inr [\<lparr>show_id = ''raveleijn'', show_name = ''Raveleijn'', show_status = ''open'',
      show_times = [\<lparr>start_date_time = \<lparr>dt_day = ymd2ord 2026 2 20, dt_hour = 13, dt_minute = 50, dt_second = 0,
          dt_microsecond = 0, dt_tzinfo = Some PARK_TIMEZONE\<rparr>,
        end_date_time = \<lparr>dt_day = ymd2ord 2026 2 20, dt_hour = 14, dt_minute = 20, dt_second = 0,
          dt_microsecond = 0, dt_tzinfo = Some PARK_TIMEZONE\<rparr>,
        edition = Some ''Showtime''\<rparr>,
       \<lparr>start_date_time = \<lparr>dt_day = ymd2ord 2026 2 20, dt_hour = 15, dt_minute = 0, dt_second = 0,
          dt_microsecond = 0, dt_tzinfo = Some PARK_TIMEZONE\<rparr>,
        end_date_time = \<lparr>dt_day = ymd2ord 2026 2 20, dt_hour = 15, dt_minute = 30, dt_second = 0,
          dt_microsecond = 0, dt_tzinfo = Some PARK_TIMEZONE\<rparr>,
        edition = Some ''Showtime''\<rparr>]\<rparr>] \<and>
   (\<exists>st \<in> set (show_times
      \<lparr>show_id = ''raveleijn'', show_name = ''Raveleijn'', show_status = ''open'',
      show_times = [\<lparr>start_date_time = \<lparr>dt_day = ymd2ord 2026 2 20, dt_hour = 13, dt_minute = 50, dt_second = 0,
          dt_microsecond = 0, dt_tzinfo = Some PARK_TIMEZONE\<rparr>,
        end_date_time = \<lparr>dt_day = ymd2ord 2026 2 20, dt_hour = 14, dt_minute = 20, dt_second = 0,
          dt_microsecond = 0, dt_tzinfo = Some PARK_TIMEZONE\<rparr>,
        edition = Some ''Showtime''\<rparr>,
       \<lparr>start_date_time = \<lparr>dt_day = ymd2ord 2026 2 20, dt_hour = 15, dt_minute = 0, dt_second = 0,
          dt_microsecond = 0, dt_tzinfo = Some PARK_TIMEZONE\<rparr>,
        end_date_time = \<lparr>dt_day = ymd2ord 2026 2 20, dt_hour = 15, dt_minute = 30, dt_second = 0,
          dt_microsecond = 0, dt_tzinfo = Some PARK_TIMEZONE\<rparr>,
        edition = Some ''Showtime''\<rparr>]\<rparr>).
      dt_ge (start_date_time st)
        \<lparr>dt_day = ymd2ord 2026 2 20, dt_hour = 14, dt_minute = 0, dt_second = 0,
          dt_microsecond = 0, dt_tzinfo = Some PARK_TIMEZONE\<rparr> 3600000000 = Inr True) \<and>
   show_status
      \<lparr>show_id = ''raveleijn'', show_name = ''Raveleijn'', show_status = ''open'',
      show_times = [\<lparr>start_date_time = \<lparr>dt_day = ymd2ord 2026 2 20, dt_hour = 13, dt_minute = 50, dt_second = 0,
          dt_microsecond = 0, dt_tzinfo = Some PARK_TIMEZONE\<rparr>,
        end_date_time = \<lparr>dt_day = ymd2ord 2026 2 20, dt_hour = 14, dt_minute = 20, dt_second = 0,
          dt_microsecond = 0, dt_tzinfo = Some PARK_TIMEZONE\<rparr>,
        edition = Some ''Showtime''\<rparr>,
       \<lparr>start_date_time = \<lparr>dt_day = ymd2ord 2026 2 20, dt_hour = 15, dt_minute = 0, dt_second = 0,
          dt_microsecond = 0, dt_tzinfo = Some PARK_TIMEZONE\<rparr>,
        end_date_time = \<lparr>dt_day = ymd2ord 2026 2 20, dt_hour = 15, dt_minute = 30, dt_second = 0,
          dt_microsecond = 0, dt_tzinfo = Some PARK_TIMEZONE\<rparr>,
        edition = Some ''Showtime''\<rparr>]\<rparr> = ''open''"
  (is "?call = Inr [?show] \<and> ?upcoming \<and> ?status")
proof -
  have out: "?call = Inr [?show]"
    by code_simp
  have mem: "?show \<in> set [?show]"
    by simp
  have upcoming: ?upcoming
    by code_simp
  from show_status_derived [OF out mem, THEN conjunct1] upcoming have ?status
    by simp
  with out upcoming show ?thesis
    by blast
qed

text \<open>
  The claim as stated fails on a show in progress: at 14:00 the show time from 13:50
  to 14:20 has not yet ended, and the show is \<open>closed\<close>.
\<close>

theorem show_in_progress_counterexample:
  "fst (fetch_shows 0
      (map_of
        [(JStr ''2026-02-20T13:50:00'', \<lparr>dt_day = ymd2ord 2026 2 20, dt_hour = 13, dt_minute = 50, dt_second = 0,
          dt_microsecond = 0, dt_tzinfo = None\<rparr>),
         (JStr ''2026-02-20T14:20:00'', \<lparr>dt_day = ymd2ord 2026 2 20, dt_hour = 14, dt_minute = 20, dt_second = 0,
          dt_microsecond = 0, dt_tzinfo = None\<rparr>),
         (JStr ''2026-02-20T15:00:00'', \<lparr>dt_day = ymd2ord 2026 2 20, dt_hour = 15, dt_minute = 0, dt_second = 0,
          dt_microsecond = 0, dt_tzinfo = None\<rparr>),
         (JStr ''2026-02-20T15:30:00'', \<lparr>dt_day = ymd2ord 2026 2 20, dt_hour = 15, dt_minute = 30, dt_second = 0,
          dt_microsecond = 0, dt_tzinfo = None\<rparr>)])
      (sort_key (\<lambda>st. civil_us (start_date_time st)))
      \<lparr>dt_day = ymd2ord 2026 2 20, dt_hour = 14, dt_minute = 0, dt_second = 0,
          dt_microsecond = 0, dt_tzinfo = Some PARK_TIMEZONE\<rparr>
      3600000000
      (Inr (JObj [(''AttractionInfo'', JArr
        [JObj [(''Id'', JStr ''Raveleijn''), (''Name'', JStr ''Raveleijn''),
               (''Type'', JStr ''Shows en Entertainment''),
               (''ShowTimes'', JArr
               [JObj [(''StartDateTime'', JStr ''2026-02-20T13:50:00''), (''EndDateTime'', JStr ''2026-02-20T14:20:00'')]])]])]))
      \<lparr>wis_cache = JNull, wis_cache_time = None, requests = 0\<rparr>)
   = Inr [\<lparr>show_id = ''raveleijn'', show_name = ''Raveleijn'', show_status = ''closed'',
      show_times = [\<lparr>start_date_time = \<lparr>dt_day = ymd2ord 2026 2 20, dt_hour = 13, dt_minute = 50, dt_second = 0,
          dt_microsecond = 0, dt_tzinfo = Some PARK_TIMEZONE\<rparr>,
        end_date_time = \<lparr>dt_day = ymd2ord 2026 2 20, dt_hour = 14, dt_minute = 20, dt_second = 0,
          dt_microsecond = 0, dt_tzinfo = Some PARK_TIMEZONE\<rparr>,
        edition = Some ''Showtime''\<rparr>]\<rparr>] \<and>
   civil_us \<lparr>dt_day = ymd2ord 2026 2 20, dt_hour = 14, dt_minute = 0, dt_second = 0,
          dt_microsecond = 0, dt_tzinfo = Some PARK_TIMEZONE\<rparr>
     < civil_us \<lparr>dt_day = ymd2ord 2026 2 20, dt_hour = 14, dt_minute = 20, dt_second = 0,
          dt_microsecond = 0, dt_tzinfo = Some PARK_TIMEZONE\<rparr>"
  by code_simp

section \<open>Properties of the error handling\<close>

lemma for_each_Inl:
  assumes "x \<in> set xs" "isl (f x)"
  shows "isl (for_each f xs)"
  using assms
proof (induction xs)
  case Nil
  then show ?case by simp
next
  case (Cons y ys)
  show ?case
  proof (cases "f y")
    case (Inl e)
    then show ?thesis by simp
  next
    case (Inr r)
    show ?thesis
    proof (cases "x = y")
      case True
      with Inr Cons.prems(2) show ?thesis by simp
    next
      case False
      with Cons have "isl (for_each f ys)" by simp
      then obtain e where "for_each f ys = Inl e"
        by (cases "for_each f ys") auto
      with Inr show ?thesis by simp
    qed
  qed
qed

lemma id_pairs_Inl:
  assumes "x \<in> set es" "isl (item_Id x)"
  shows "isl (id_pairs es)"
  using assms
proof (induction es)
  case Nil
  then show ?case by simp
next
  case (Cons y ys)
  show ?case
  proof (cases "item_Id y")
    case (Inl e)
    then show ?thesis by simp
  next
    case (Inr k)
    show ?thesis
    proof (cases "x = y")
      case True
      with Inr Cons.prems(2) show ?thesis by simp
    next
      case False
      with Cons have "isl (id_pairs ys)" by simp
      then obtain e where "id_pairs ys = Inl e"
        by (cases "id_pairs ys") auto
      with Inr show ?thesis by simp
    qed
  qed
qed

lemma py_get_not_dict: "\<forall>kvs. x \<noteq> JObj kvs \<Longrightarrow> py_get x k d = Inl AttributeError"
  by (cases x) simp_all

lemma item_Id_not_dict: "\<forall>kvs. x \<noteq> JObj kvs \<Longrightarrow> item_Id x = Inl TypeError"
  by (cases x) simp_all

lemma attractions_of_Inl:
  assumes "py_get data ''AttractionInfo'' (JArr []) = Inr (JArr es)"
    and "x \<in> set es" "isl (item_Id x)"
  shows "isl (attractions_of clock data)"
proof -
  from id_pairs_Inl [OF assms(2,3)] obtain e where "id_pairs es = Inl e"
    by (cases "id_pairs es") auto
  with assms(1) show ?thesis
    by (simp add: attractions_of_def all_entries_of_def)
qed

lemma entries_loop_Inl:
  assumes "py_get data ''AttractionInfo'' (JArr []) = Inr (JArr es)"
    and "x \<in> set es" "isl (f x)"
  shows "isl (bind_err (py_get data ''AttractionInfo'' (JArr [])) (\<lambda>info.
              bind_err (py_iter info) (\<lambda>es. for_each f es)))"
  using for_each_Inl [of x es f, OF assms(2,3)] assms(1) by simp

text \<open>
  C5, as amended. Each of the four live fetch methods returns the empty list, and
  raises nothing, when \<open>_fetch_wis\<close> raises. When \<open>_fetch_wis\<close> returns a payload,
  the method is the unguarded parsing of that payload, and a shape error in one raw
  entry ends the whole call with an exception instead of skipping the entry: an entry
  of \<open>AttractionInfo\<close> that is not a dict makes all four methods raise, and so does,
  for \<open>fetch_wait_times\<close>, an entry without \<open>Id\<close>. What is absorbed is a bad field
  value of three kinds: a non-numeric wait becomes \<open>None\<close>, a show time whose start
  or end does not parse is left out of its show, and an opening or closing time that
  does not parse becomes \<open>None\<close>; the entity and its siblings are returned.
\<close>

theorem live_fetch_error_handling:
  "(fst (fetch_wis now upstream self) = Inl e \<longrightarrow>
      fst (fetch_wait_times now clock upstream self) = Inr [] \<and>
      fst (fetch_shows now fromisoformat list_sort now_park now_offset upstream self) = Inr [] \<and>
      fst (fetch_restaurants now fromisoformat upstream self) = Inr [] \<and>
      fst (fetch_shops now fromisoformat upstream self) = Inr []) \<and>
   (fst (fetch_wis now upstream self) = Inr data \<longrightarrow>
      fst (fetch_wait_times now clock upstream self) = attractions_of clock data \<and>
      fst (fetch_shows now fromisoformat list_sort now_park now_offset upstream self)
        = shows_of fromisoformat list_sort now_park now_offset data \<and>
      fst (fetch_restaurants now fromisoformat upstream self)
        = restaurants_of fromisoformat data \<and>
      fst (fetch_shops now fromisoformat upstream self) = shops_of fromisoformat data) \<and>
   (py_get data ''AttractionInfo'' (JArr []) = Inr (JArr es) \<and> x \<in> set es \<and>
    (\<forall>kvs. x \<noteq> JObj kvs) \<longrightarrow>
      isl (attractions_of clock data) \<and>
      isl (shows_of fromisoformat list_sort now_park now_offset data) \<and>
      isl (restaurants_of fromisoformat data) \<and>
      isl (shops_of fromisoformat data)) \<and>
   (py_get data ''AttractionInfo'' (JArr []) = Inr (JArr es) \<and> x \<in> set es \<and>
    isl (item_Id x) \<longrightarrow>
      isl (attractions_of clock data)) \<and>
   (let at = (\<lambda>h m tz. \<lparr>dt_day = ymd2ord 2026 2 20, dt_hour = h, dt_minute = m,
                 dt_second = 0, dt_microsecond = 0, dt_tzinfo = tz\<rparr>);
        iso = map_of
          [(JStr ''2026-02-20T10:00:00'', at 10 0 None),
           (JStr ''2026-02-20T14:20:00'', at 14 20 None),
           (JStr ''2026-02-20T15:00:00'', at 15 0 None),
           (JStr ''2026-02-20T15:30:00'', at 15 30 None),
           (JStr ''2026-02-20T18:00:00'', at 18 0 None)];
        by_start = sort_key (\<lambda>st. civil_us (start_date_time st));
        payload = (\<lambda>es. JObj [(''AttractionInfo'', JArr es)]);
        entry = (\<lambda>i t rest. JObj ([(''Id'', JStr i), (''Name'', JStr i), (''Type'', JStr t)] @ rest));
        times = (\<lambda>k a b. JObj [(k @ ''From'', JStr a), (k @ ''To'', JStr b)]);
        show_time = (\<lambda>a b. JObj [(''StartDateTime'', JStr a), (''EndDateTime'', JStr b)]);
        park = Some PARK_TIMEZONE
    in attractions_of clock (payload
           [entry ''python'' ''Attraction'' [(''State'', JStr ''open''), (''WaitingTime'', JStr ''n/a'')],
            entry ''joris'' ''Attraction'' [(''State'', JStr ''open''), (''WaitingTime'', JInt 25)]])
         = Inr [\<lparr>al_id = ''python'', al_name = ''python'', al_status = AS_open,
                  al_wait_time = None, single_rider = None, virtual_queue = None\<rparr>,
                \<lparr>al_id = ''joris'', al_name = ''joris'', al_status = AS_open,
                  al_wait_time = Some 25, single_rider = None, virtual_queue = None\<rparr>] \<and>
       shows_of iso by_start (at 14 0 park) 3600000000 (payload
           [entry ''Raveleijn'' ''Shows en Entertainment'' [(''ShowTimes'', JArr
              [show_time ''soon'' ''2026-02-20T14:20:00'',
               show_time ''2026-02-20T15:00:00'' ''2026-02-20T15:30:00''])]])
         = Inr [\<lparr>show_id = ''raveleijn'', show_name = ''Raveleijn'', show_status = ''open'',
                  show_times = [\<lparr>start_date_time = at 15 0 park, end_date_time = at 15 30 park,
                                  edition = Some ''Showtime''\<rparr>]\<rparr>] \<and>
       restaurants_of iso (payload
           [entry ''Polles'' ''Horeca'' [(''OpeningTimes'', JArr
              [times ''Hour'' ''soon'' ''2026-02-20T18:00:00''])],
            entry ''Octopus'' ''Horeca'' []])
         = Inr [\<lparr>restaurant_id = ''polles'', restaurant_name = ''Polles'',
                  restaurant_status = VS_open, restaurant_opening_time = None,
                  restaurant_closing_time = Some (at 18 0 park)\<rparr>,
                \<lparr>restaurant_id = ''octopus'', restaurant_name = ''Octopus'',
                  restaurant_status = VS_closed, restaurant_opening_time = None,
                  restaurant_closing_time = None\<rparr>] \<and>
       shops_of iso (payload
           [entry ''Efteldingen'' ''Souvenirwinkel'' [(''OpeningTimes'', JArr
              [times ''Hour'' ''2026-02-20T10:00:00'' ''later''])]])
         = Inr [\<lparr>shop_id = ''efteldingen'', shop_name = ''Efteldingen'',
                  shop_status = VS_open, shop_opening_time = Some (at 10 0 park),
                  shop_closing_time = None\<rparr>])"
proof -
  have failed: "fst (fetch_wait_times now clock upstream self) = Inr [] \<and>
      fst (fetch_shows now fromisoformat list_sort now_park now_offset upstream self) = Inr [] \<and>
      fst (fetch_restaurants now fromisoformat upstream self) = Inr [] \<and>
      fst (fetch_shops now fromisoformat upstream self) = Inr []"
    if "fst (fetch_wis now upstream self) = Inl e"
    using that
    by (cases "fetch_wis now upstream self")
       (simp add: fetch_wait_times_def fetch_shows_def fetch_restaurants_def fetch_shops_def)
  have fetched: "fst (fetch_wait_times now clock upstream self) = attractions_of clock data \<and>
      fst (fetch_shows now fromisoformat list_sort now_park now_offset upstream self)
        = shows_of fromisoformat list_sort now_park now_offset data \<and>
      fst (fetch_restaurants now fromisoformat upstream self)
        = restaurants_of fromisoformat data \<and>
      fst (fetch_shops now fromisoformat upstream self) = shops_of fromisoformat data"
    if "fst (fetch_wis now upstream self) = Inr data"
    using that
    by (cases "fetch_wis now upstream self")
       (simp add: fetch_wait_times_def fetch_shows_def fetch_restaurants_def fetch_shops_def)
  have shape: "isl (attractions_of clock data) \<and>
      isl (shows_of fromisoformat list_sort now_park now_offset data) \<and>
      isl (restaurants_of fromisoformat data) \<and>
      isl (shops_of fromisoformat data)"
    if g: "py_get data ''AttractionInfo'' (JArr []) = Inr (JArr es)" and x: "x \<in> set es"
      and n: "\<forall>kvs. x \<noteq> JObj kvs"
  proof -
    have "isl (item_Id x)"
      using item_Id_not_dict [OF n] by simp
    from attractions_of_Inl [OF g x this] have 1: "isl (attractions_of clock data)" .
    have "isl (show_of fromisoformat list_sort now_park now_offset x)"
      by (simp add: show_of_def py_get_not_dict [OF n])
    from entries_loop_Inl [of data es x "show_of fromisoformat list_sort now_park now_offset", OF g x this]
    have 2: "isl (shows_of fromisoformat list_sort now_park now_offset data)"
      by (simp add: shows_of_def)
    have "isl (restaurant_of fromisoformat x)"
      by (simp add: restaurant_of_def py_get_not_dict [OF n])
    from entries_loop_Inl [of data es x "restaurant_of fromisoformat", OF g x this]
    have 3: "isl (restaurants_of fromisoformat data)"
      by (simp add: restaurants_of_def)
    have "isl (shop_of fromisoformat x)"
      by (simp add: shop_of_def py_get_not_dict [OF n])
    from entries_loop_Inl [of data es x "shop_of fromisoformat", OF g x this]
    have 4: "isl (shops_of fromisoformat data)"
      by (simp add: shops_of_def)
    from 1 2 3 4 show ?thesis by simp
  qed
  have no_id: "isl (attractions_of clock data)"
    if "py_get data ''AttractionInfo'' (JArr []) = Inr (JArr es)" "x \<in> set es"
      "isl (item_Id x)"
    using that by (rule attractions_of_Inl)
  have examples: "(let at = (\<lambda>h m tz. \<lparr>dt_day = ymd2ord 2026 2 20, dt_hour = h, dt_minute = m,
                 dt_second = 0, dt_microsecond = 0, dt_tzinfo = tz\<rparr>);
        iso = map_of
          [(JStr ''2026-02-20T10:00:00'', at 10 0 None),
           (JStr ''2026-02-20T14:20:00'', at 14 20 None),
           (JStr ''2026-02-20T15:00:00'', at 15 0 None),
           (JStr ''2026-02-20T15:30:00'', at 15 30 None),
           (JStr ''2026-02-20T18:00:00'', at 18 0 None)];
        by_start = sort_key (\<lambda>st. civil_us (start_date_time st));
        payload = (\<lambda>es. JObj [(''AttractionInfo'', JArr es)]);
        entry = (\<lambda>i t rest. JObj ([(''Id'', JStr i), (''Name'', JStr i), (''Type'', JStr t)] @ rest));
        times = (\<lambda>k a b. JObj [(k @ ''From'', JStr a), (k @ ''To'', JStr b)]);
        show_time = (\<lambda>a b. JObj [(''StartDateTime'', JStr a), (''EndDateTime'', JStr b)]);
        park = Some PARK_TIMEZONE
    in attractions_of clock (payload
           [entry ''python'' ''Attraction'' [(''State'', JStr ''open''), (''WaitingTime'', JStr ''n/a'')],
            entry ''joris'' ''Attraction'' [(''State'', JStr ''open''), (''WaitingTime'', JInt 25)]])
         = Inr [\<lparr>al_id = ''python'', al_name = ''python'', al_status = AS_open,
                  al_wait_time = None, single_rider = None, virtual_queue = None\<rparr>,
                \<lparr>al_id = ''joris'', al_name = ''joris'', al_status = AS_open,
                  al_wait_time = Some 25, single_rider = None, virtual_queue = None\<rparr>] \<and>
       shows_of iso by_start (at 14 0 park) 3600000000 (payload
           [entry ''Raveleijn'' ''Shows en Entertainment'' [(''ShowTimes'', JArr
              [show_time ''soon'' ''2026-02-20T14:20:00'',
               show_time ''2026-02-20T15:00:00'' ''2026-02-20T15:30:00''])]])
         = Inr [\<lparr>show_id = ''raveleijn'', show_name = ''Raveleijn'', show_status = ''open'',
                  show_times = [\<lparr>start_date_time = at 15 0 park, end_date_time = at 15 30 park,
                                  edition = Some ''Showtime''\<rparr>]\<rparr>] \<and>
       restaurants_of iso (payload
           [entry ''Polles'' ''Horeca'' [(''OpeningTimes'', JArr
              [times ''Hour'' ''soon'' ''2026-02-20T18:00:00''])],
            entry ''Octopus'' ''Horeca'' []])
         = Inr [\<lparr>restaurant_id = ''polles'', restaurant_name = ''Polles'',
                  restaurant_status = VS_open, restaurant_opening_time = None,
                  restaurant_closing_time = Some (at 18 0 park)\<rparr>,
                \<lparr>restaurant_id = ''octopus'', restaurant_name = ''Octopus'',
                  restaurant_status = VS_closed, restaurant_opening_time = None,
                  restaurant_closing_time = None\<rparr>] \<and>
       shops_of iso (payload
           [entry ''Efteldingen'' ''Souvenirwinkel'' [(''OpeningTimes'', JArr
              [times ''Hour'' ''2026-02-20T10:00:00'' ''later''])]])
         = Inr [\<lparr>shop_id = ''efteldingen'', shop_name = ''Efteldingen'',
                  shop_status = VS_open, shop_opening_time = Some (at 10 0 park),
                  shop_closing_time = None\<rparr>])"
    by code_simp
  from failed fetched shape no_id examples show ?thesis
    by blast
qed

theorem live_fetch_error_handling_witness:
  "(let clock = (\<lambda>i. \<lparr>dt_day = ymd2ord 2026 2 20, dt_hour = 14, dt_minute = 0, dt_second = 0,
                     dt_microsecond = 0, dt_tzinfo = Some PARK_TIMEZONE\<rparr>);
        iso = (\<lambda>v. None);
        by_start = sort_key (\<lambda>st. civil_us (start_date_time st));
        connector = \<lparr>wis_cache = JNull, wis_cache_time = None, requests = 0\<rparr>;
        shaped = JObj [(''AttractionInfo'', JArr
          [JObj [(''Id'', JStr ''python''), (''Name'', JStr ''Python''),
                 (''Type'', JStr ''Attraction''), (''State'', JStr ''open'')],
           JStr ''python''])];
        no_id = JObj [(''AttractionInfo'', JArr
          [JObj [(''Id'', JStr ''python''), (''Name'', JStr ''Python''),
                 (''Type'', JStr ''Attraction''), (''State'', JStr ''open'')],
           JObj [(''Name'', JStr ''Joris''), (''Type'', JStr ''Attraction'')]])]
    in fst (fetch_wait_times 0 clock (Inl HTTPError) connector) = Inr [] \<and>
       fst (fetch_shows 0 iso by_start (clock []) 3600000000 (Inl HTTPError) connector) = Inr [] \<and>
       fst (fetch_restaurants 0 iso (Inl HTTPError) connector) = Inr [] \<and>
       fst (fetch_shops 0 iso (Inl HTTPError) connector) = Inr [] \<and>
       isl (attractions_of clock shaped) \<and>
       isl (shows_of iso by_start (clock []) 3600000000 shaped) \<and>
       isl (restaurants_of iso shaped) \<and>
       isl (shops_of iso shaped) \<and>
       isl (attractions_of clock no_id))"
proof -
  let ?clock = "\<lambda>i :: string. \<lparr>dt_day = ymd2ord 2026 2 20, dt_hour = 14, dt_minute = 0,
      dt_second = 0, dt_microsecond = 0, dt_tzinfo = Some PARK_TIMEZONE\<rparr>"
  let ?iso = "\<lambda>v :: json. None :: datetime option"
  let ?by_start = "sort_key (\<lambda>st :: ShowTime. civil_us (start_date_time st))"
  let ?connector = "\<lparr>wis_cache = JNull, wis_cache_time = None, requests = 0\<rparr>"
  let ?good = "JObj [(''Id'', JStr ''python''), (''Name'', JStr ''Python''),
                 (''Type'', JStr ''Attraction''), (''State'', JStr ''open'')]"
  let ?joris = "JObj [(''Name'', JStr ''Joris''), (''Type'', JStr ''Attraction'')]"
  let ?shaped = "JObj [(''AttractionInfo'', JArr [?good, JStr ''python''])]"
  let ?no_id = "JObj [(''AttractionInfo'', JArr [?good, ?joris])]"
  have down: "fst (fetch_wis 0 (Inl HTTPError) ?connector) = Inl HTTPError"
    by (simp add: fetch_wis_def)
  have s1: "py_get ?shaped ''AttractionInfo'' (JArr []) = Inr (JArr [?good, JStr ''python''])"
    by simp
  have s2: "JStr ''python'' \<in> set [?good, JStr ''python'']"
    by simp
  have s3: "\<forall>kvs. JStr ''python'' \<noteq> JObj kvs"
    by simp
  have n1: "py_get ?no_id ''AttractionInfo'' (JArr []) = Inr (JArr [?good, ?joris])"
    by simp
  have n2: "?joris \<in> set [?good, ?joris]"
    by simp
  have n3: "isl (item_Id ?joris)"
    by simp
  from live_fetch_error_handling [where now = 0 and upstream = "Inl HTTPError"
      and self = ?connector and e = HTTPError and clock = ?clock and fromisoformat = ?iso
      and list_sort = ?by_start and now_park = "?clock []" and now_offset = 3600000000
      and data = ?shaped and es = "[?good, JStr ''python'']" and x = "JStr ''python''"]
    down s1 s2 s3
  have a: "fst (fetch_wait_times 0 ?clock (Inl HTTPError) ?connector) = Inr [] \<and>
       fst (fetch_shows 0 ?iso ?by_start (?clock []) 3600000000 (Inl HTTPError) ?connector)
         = Inr [] \<and>
       fst (fetch_restaurants 0 ?iso (Inl HTTPError) ?connector) = Inr [] \<and>
       fst (fetch_shops 0 ?iso (Inl HTTPError) ?connector) = Inr [] \<and>
       isl (attractions_of ?clock ?shaped) \<and>
       isl (shows_of ?iso ?by_start (?clock []) 3600000000 ?shaped) \<and>
       isl (restaurants_of ?iso ?shaped) \<and>
       isl (shops_of ?iso ?shaped)"
    by blast
  from live_fetch_error_handling [where clock = ?clock and data = ?no_id
      and es = "[?good, ?joris]" and x = ?joris] n1 n2 n3
  have b: "isl (attractions_of ?clock ?no_id)"
    by blast
  from a b show ?thesis
    unfolding Let_def by blast
qed

text \<open>
  The claim as stated fails on a shape error in one entry: nothing after the fetch is
  inside a \<open>try\<close>, so the method raises and the sibling entries are lost.
  \<open>fetch_wait_times\<close> raises KeyError on a payload whose second entry has no \<open>Id\<close>,
  \<open>fetch_shows\<close> and \<open>fetch_shops\<close> raise AttributeError on an entry that is not a
  dict, and \<open>fetch_restaurants\<close> raises KeyError on \<open>OpeningTimes\<close> that is a dict.
\<close>

theorem malformed_entry_counterexample:
  "(let clock = (\<lambda>i. \<lparr>dt_day = ymd2ord 2026 2 20, dt_hour = 14, dt_minute = 0, dt_second = 0,
                     dt_microsecond = 0, dt_tzinfo = Some PARK_TIMEZONE\<rparr>);
        iso = (\<lambda>v. None);
        by_start = sort_key (\<lambda>st. civil_us (start_date_time st));
        connector = \<lparr>wis_cache = JNull, wis_cache_time = None, requests = 0\<rparr>;
        payload = (\<lambda>es. Inr (JObj [(''AttractionInfo'', JArr es)]));
        entry = (\<lambda>i t rest. JObj ([(''Id'', JStr i), (''Name'', JStr i), (''Type'', JStr t)] @ rest))
    in fst (fetch_wait_times 0 clock (payload
             [entry ''python'' ''Attraction'' [(''State'', JStr ''open''), (''WaitingTime'', JInt 20)],
              JObj [(''Name'', JStr ''Joris''), (''Type'', JStr ''Attraction''),
                    (''State'', JStr ''open'')]]) connector)
         = Inl KeyError \<and>
       fst (fetch_shows 0 iso by_start (clock []) 3600000000 (payload
             [entry ''Raveleijn'' ''Shows en Entertainment'' [(''ShowTimes'', JArr [])],
              JStr ''Raveleijn'']) connector)
         = Inl AttributeError \<and>
       fst (fetch_restaurants 0 iso (payload
             [entry ''Polles'' ''Horeca'' [],
              entry ''Octopus'' ''Horeca''
                [(''OpeningTimes'', JObj [(''HourFrom'', JStr ''2026-02-20T10:00:00'')])]])
             connector)
         = Inl KeyError \<and>
       fst (fetch_shops 0 iso (payload
             [entry ''Efteldingen'' ''Souvenirwinkel'' [], JNull]) connector)
         = Inl AttributeError)"
  by code_simp

end
